theory Spec2Isabelle
  imports Main "HOL-Library.Word"
begin

section \<open>JavaScript strings\<close>

text \<open>
  A JavaScript string is a sequence of UTF-16 code units; \<open>length\<close> counts code units.
  \<open>trim\<close> removes the ECMAScript WhiteSpace and LineTerminator code units from both ends.
  A string is falsy exactly when it is empty.
\<close>

type_synonym jsstring = "16 word list"

definition ascii :: "string \<Rightarrow> jsstring" where
  "ascii cs = map (\<lambda>c. of_nat (of_char c :: nat)) cs"

definition isTrimChar :: "16 word \<Rightarrow> bool" where
  "isTrimChar c \<longleftrightarrow>
     c \<in> set [0x0009, 0x000A, 0x000B, 0x000C, 0x000D, 0x0020, 0x00A0, 0x1680,
              0x2028, 0x2029, 0x202F, 0x205F, 0x3000, 0xFEFF]
     \<or> (0x2000 \<le> c \<and> c \<le> 0x200A)"

definition trim :: "jsstring \<Rightarrow> jsstring" where
  "trim t = rev (dropWhile isTrimChar (rev (dropWhile isTrimChar t)))"

definition endsWith :: "jsstring \<Rightarrow> jsstring \<Rightarrow> bool" where
  "endsWith t suffix \<longleftrightarrow>
     length suffix \<le> length t \<and> drop (length t - length suffix) t = suffix"

definition startsWith :: "jsstring \<Rightarrow> jsstring \<Rightarrow> bool" where
  "startsWith t p \<longleftrightarrow> take (length p) t = p"

section \<open>Data model\<close>

datatype sender = User | Bot

record ChatAttachment =
  a_name :: jsstring
  a_mime :: jsstring
  a_contentString :: jsstring

text \<open>
  A chat message. \<open>m_id\<close> is \<open>None\<close> when the identifier is taken from the clock
  (\<open>Date.now().toString()\<close>) and \<open>Some i\<close> when it is the identifier of the response;
  the timestamp (the clock again) is left out.
\<close>

record ChatMessage =
  m_id :: "jsstring option"
  m_type :: sender
  m_message :: jsstring
  m_attachment :: "ChatAttachment option"

text \<open>The arguments of one call of \<open>sendChatMessage\<close>, in the order of the call.\<close>

record ChatRequest =
  q_message :: jsstring
  q_mode :: jsstring
  q_sessionId :: jsstring
  q_attachments :: "ChatAttachment list option"
  q_reset :: "bool option"

record ChatResponse =
  d_id :: jsstring
  d_textResponse :: jsstring

datatype call_error = ChatApiError jsstring | OtherError

text \<open>
  What waits for the answer of a remote call: the rest of \<open>handleVoiceConversation\<close>,
  of \<open>handleSendMessage\<close> (which closes over the \<open>autoSpeak\<close> of the render that sent
  it) or of \<open>handleResetChat\<close>.
\<close>

datatype call_kind = VoiceCall | SendCall bool | ResetCall

text \<open>The only function ever passed as \<open>onSpeechEnd\<close>, and the only \<open>onDone\<close> of \<open>speak\<close>.\<close>

datatype callback = HandleVoiceConversation

datatype speech_cb = VoiceOnDone

section \<open>Timers and the recognizer of the browser\<close>

text \<open>
  Every \<open>setTimeout\<close> of the two source files, by what its callback does:
  \<^item> \<open>AutoStop r\<close>: the 10000 ms timer of \<open>onstart\<close> of recognizer \<open>r\<close>;
  \<^item> \<open>SilenceTimer t\<close>: the debounce timers of \<open>onresult\<close> (300, 500 or 800 ms);
  \<^item> \<open>DispatchTimer cb t\<close>: the 100 ms timer of \<open>processVoiceResult\<close>;
  \<^item> \<open>ProcessingReset\<close>: the 1000 ms timer of \<open>onend\<close> and \<open>onerror\<close>;
  \<^item> \<open>NoSpeechRestart\<close>: the 1000 ms timer of \<open>onerror\<close> on \<open>no-speech\<close>;
  \<^item> \<open>RestartTimer cb\<close>: the 1500 ms timer of \<open>restartListening\<close>;
  \<^item> \<open>VoiceRestart\<close>: the 500, 1000 and 2000 ms timers of \<open>handleVoiceConversation\<close>;
  \<^item> \<open>AutoSpeakTimer t\<close>: the 500 ms timer of \<open>handleSendMessage\<close>.
\<close>

datatype timer_action =
    AutoStop nat
  | SilenceTimer jsstring
  | DispatchTimer callback jsstring
  | ProcessingReset
  | NoSpeechRestart
  | RestartTimer callback
  | VoiceRestart
  | AutoSpeakTimer jsstring

record timer =
  t_delay :: nat
  t_action :: timer_action

text \<open>
  A recognizer instance of the browser. \<open>r_autoStopTimeout\<close> is the local variable
  \<open>autoStopTimeout\<close> of the call of \<open>startListening\<close> that created the instance.
\<close>

datatype rstatus = Requested | Running | Stopping | Aborting | Ended

record recognition =
  r_continuous :: bool
  r_interimResults :: bool
  r_lang :: jsstring
  r_status :: rstatus
  r_autoStopTimeout :: "nat option"

record rec_result =
  transcript0 :: jsstring
  isFinal :: bool

record SpeechRecognitionEvent =
  results :: "rec_result list"
  resultIndex :: nat

datatype rec_error = Aborted | NotAllowed | NoSpeech | OtherRecError

record image_file =
  f_name :: jsstring
  f_type :: jsstring
  f_dataUrl :: jsstring

section \<open>The state of the page\<close>

record state =
  \<comment> \<open>\<open>App\<close>: React state and refs\<close>
  messages :: "ChatMessage list"
  input :: jsstring
  isLoading :: bool
  attachment :: "ChatAttachment option"
  autoSpeak :: bool
  isVoiceMode :: bool
  currentUserSpeech :: jsstring
  currentBotSpeech :: jsstring
  voiceModeRef :: bool
  isProcessingVoiceRef :: bool
  \<comment> \<open>\<open>useSpeechRecognition\<close>: React state and refs\<close>
  isListening :: bool
  transcript :: jsstring
  isSupported :: bool
  recognitionRef :: "nat option"
  onSpeechEndRef :: "callback option"
  finalTranscriptRef :: jsstring
  isVoiceModeRef :: bool
  timeoutRef :: "nat option"
  isProcessingRef :: bool
  lastProcessedTextRef :: jsstring
  silenceTimeoutRef :: "nat option"
  \<comment> \<open>what the memoised \<open>startListening\<close> closed over (\<open>useCallback\<close>)\<close>
  closure_isSupported :: bool
  closure_isListening :: bool
  \<comment> \<open>the dependencies each \<open>useEffect\<close> of \<open>App\<close> last ran with\<close>
  deps_voiceRef :: "bool option"
  deps_userSpeech :: "(jsstring \<times> bool) option"
  deps_manualMic :: "(jsstring \<times> bool \<times> bool) option"
  \<comment> \<open>\<open>useSpeechSynthesis\<close>\<close>
  isSpeaking :: bool
  utterance :: "(jsstring \<times> speech_cb option) option"
  spoken :: "jsstring list"
  \<comment> \<open>the browser and the network\<close>
  isMobile :: bool
  hasSpeechRecognition :: bool
  speechSynthesisSupported :: bool
  recognizers :: "recognition list"
  timers :: "(nat \<times> timer) list"
  nextTimer :: nat
  pendingStarts :: "(nat \<times> callback option) list"
  nextStart :: nat
  requests :: "ChatRequest list"
  pendingCalls :: "(nat \<times> call_kind) list"
  alerts :: nat

definition init :: "bool \<Rightarrow> bool \<Rightarrow> bool \<Rightarrow> state" where
  "init mobile recognitionApi synthesisApi =
     \<lparr> messages = [], input = [], isLoading = False, attachment = None, autoSpeak = True,
       isVoiceMode = False, currentUserSpeech = [], currentBotSpeech = [],
       voiceModeRef = False, isProcessingVoiceRef = False,
       isListening = False, transcript = [], isSupported = False, recognitionRef = None,
       onSpeechEndRef = None, finalTranscriptRef = [], isVoiceModeRef = False,
       timeoutRef = None, isProcessingRef = False, lastProcessedTextRef = [],
       silenceTimeoutRef = None,
       closure_isSupported = False, closure_isListening = False,
       deps_voiceRef = None, deps_userSpeech = None, deps_manualMic = None,
       isSpeaking = False, utterance = None, spoken = [],
       isMobile = mobile, hasSpeechRecognition = recognitionApi,
       speechSynthesisSupported = synthesisApi,
       recognizers = [], timers = [], nextTimer = 1,
       pendingStarts = [], nextStart = 0, requests = [], pendingCalls = [], alerts = 0 \<rparr>"


section \<open>Timers, remote calls, speech synthesis\<close>

text \<open>\<open>setTimeout\<close> returns \<open>nextTimer s\<close>, the identifier of the new timer.\<close>

definition setTimeout :: "nat \<Rightarrow> timer_action \<Rightarrow> state \<Rightarrow> state" where
  "setTimeout d a s =
     s\<lparr>timers := timers s @ [(nextTimer s, \<lparr>t_delay = d, t_action = a\<rparr>)],
       nextTimer := Suc (nextTimer s)\<rparr>"

definition clearTimeout :: "nat \<Rightarrow> state \<Rightarrow> state" where
  "clearTimeout i s = s\<lparr>timers := filter (\<lambda>p. fst p \<noteq> i) (timers s)\<rparr>"

text \<open>
  Modelled from the spec: \<open>sendChatMessage\<close> of the module \<open>api\<close>, which is not among
  the sources. It sends the message text, a mode tag, a session identifier, an optional
  list of attachments and an optional reset flag to the chat endpoint; the answer (a
  response identifier and text, or a failure) arrives later. The request is logged in
  \<open>requests\<close>; its index there identifies the call while it is outstanding.
\<close>

definition sendChatMessage :: "ChatRequest \<Rightarrow> call_kind \<Rightarrow> state \<Rightarrow> state" where
  "sendChatMessage req k s =
     s\<lparr>requests := requests s @ [req],
       pendingCalls := pendingCalls s @ [(length (requests s), k)]\<rparr>"

text \<open>
  Modelled from the spec: the hook \<open>useSpeechSynthesis\<close>, which is not among the
  sources. \<open>speak(text, onDone?)\<close> starts one playback of the text and keeps the
  completion callback, \<open>stop()\<close> ends playback; a boolean tells whether the speaker is
  speaking. \<open>spoken\<close> logs every playback started.
\<close>

definition speak :: "jsstring \<Rightarrow> speech_cb option \<Rightarrow> state \<Rightarrow> state" where
  "speak t onDone s =
     s\<lparr>isSpeaking := True, utterance := Some (t, onDone), spoken := spoken s @ [t]\<rparr>"

definition stopSpeaking :: "state \<Rightarrow> state" where
  "stopSpeaking s = s\<lparr>isSpeaking := False, utterance := None\<rparr>"

section \<open>The hook useSpeechRecognition\<close>

text \<open>The methods \<open>stop()\<close> and \<open>abort()\<close> of recognizer instance \<open>r\<close>.\<close>

definition rec_set_status :: "nat \<Rightarrow> rstatus \<Rightarrow> state \<Rightarrow> state" where
  "rec_set_status r st s =
     (if r < length (recognizers s)
      then s\<lparr>recognizers := (recognizers s)[r := (recognizers s ! r)\<lparr>r_status := st\<rparr>]\<rparr>
      else s)"

definition rec_status :: "nat \<Rightarrow> state \<Rightarrow> rstatus" where
  "rec_status r s = (if r < length (recognizers s) then r_status (recognizers s ! r) else Ended)"

definition rec_stop :: "nat \<Rightarrow> state \<Rightarrow> state" where
  "rec_stop r s =
     (if rec_status r s = Requested \<or> rec_status r s = Running
      then rec_set_status r Stopping s else s)"

definition rec_abort :: "nat \<Rightarrow> state \<Rightarrow> state" where
  "rec_abort r s = (if rec_status r s = Ended then s else rec_set_status r Aborting s)"

definition cleanup :: "state \<Rightarrow> state" where
  "cleanup s =
     (let s1 = (case timeoutRef s of
                  Some i \<Rightarrow> (clearTimeout i s)\<lparr>timeoutRef := None\<rparr>
                | None \<Rightarrow> s);
          s2 = (case silenceTimeoutRef s1 of
                  Some i \<Rightarrow> (clearTimeout i s1)\<lparr>silenceTimeoutRef := None\<rparr>
                | None \<Rightarrow> s1);
          s3 = (case recognitionRef s2 of
                  Some r \<Rightarrow> (rec_abort r s2)\<lparr>recognitionRef := None\<rparr>
                | None \<Rightarrow> s2)
      in s3\<lparr>isListening := False, isProcessingRef := False\<rparr>)"

definition processVoiceResult :: "jsstring \<Rightarrow> state \<Rightarrow> state" where
  "processVoiceResult text s =
     (let trimmedText = trim text in
      if isProcessingRef s \<or> trimmedText = [] \<or> trimmedText = lastProcessedTextRef s then s
      else if length trimmedText < 2 then s
      else
        let s1 = s\<lparr>isProcessingRef := True, lastProcessedTextRef := trimmedText\<rparr>;
            s2 = (case recognitionRef s1 of Some r \<Rightarrow> rec_stop r s1 | None \<Rightarrow> s1)
        in (case onSpeechEndRef s2 of
              Some cb \<Rightarrow> setTimeout 100 (DispatchTimer cb trimmedText) s2
            | None \<Rightarrow> s2))"

text \<open>
  \<open>startListening\<close> is asynchronous: it returns at once when the closure's
  \<open>isSupported\<close> is false, and otherwise waits for \<open>checkMicrophonePermission\<close>. The
  part before the \<open>await\<close> queues the call; \<open>startListening_resume\<close> is the part after
  it, run when the permission check has answered \<open>hasPermission\<close>. \<open>startOk\<close> tells
  whether \<open>recognition.start()\<close> returns (true) or throws (false).
\<close>

definition startListening :: "callback option \<Rightarrow> state \<Rightarrow> state" where
  "startListening onSpeechEnd s =
     (if \<not> closure_isSupported s then s
      else s\<lparr>pendingStarts := pendingStarts s @ [(nextStart s, onSpeechEnd)],
             nextStart := Suc (nextStart s)\<rparr>)"

definition startListening_resume :: "callback option \<Rightarrow> bool \<Rightarrow> bool \<Rightarrow> state \<Rightarrow> state" where
  "startListening_resume onSpeechEnd hasPermission startOk s =
     (if \<not> hasPermission then s\<lparr>alerts := Suc (alerts s)\<rparr>
      else if \<not> hasSpeechRecognition s then s
      else
        let s1 = cleanup s;
            s2 = s1\<lparr>isVoiceModeRef := (onSpeechEnd \<noteq> None), onSpeechEndRef := onSpeechEnd,
                    finalTranscriptRef := [], isProcessingRef := False,
                    lastProcessedTextRef := []\<rparr>;
            r = length (recognizers s2);
            s3 = s2\<lparr>recognizers := recognizers s2 @
                      [\<lparr>r_continuous = \<not> isMobile s2, r_interimResults = True,
                        r_lang = ascii ''tr-TR'', r_status = Requested,
                        r_autoStopTimeout = None\<rparr>],
                    recognitionRef := Some r\<rparr>
        in if startOk then s3
           else (rec_set_status r Ended s3)
                  \<lparr>isListening := False, recognitionRef := None, isProcessingRef := False\<rparr>)"

text \<open>The handlers \<open>onstart\<close>, \<open>onresult\<close>, \<open>onend\<close> and \<open>onerror\<close> of instance \<open>r\<close>.\<close>

definition set_autoStopTimeout :: "nat \<Rightarrow> nat option \<Rightarrow> state \<Rightarrow> state" where
  "set_autoStopTimeout r v s =
     (if r < length (recognizers s)
      then s\<lparr>recognizers := (recognizers s)[r := (recognizers s ! r)\<lparr>r_autoStopTimeout := v\<rparr>]\<rparr>
      else s)"

definition autoStopTimeout :: "nat \<Rightarrow> state \<Rightarrow> nat option" where
  "autoStopTimeout r s =
     (if r < length (recognizers s) then r_autoStopTimeout (recognizers s ! r) else None)"

definition clear_autoStopTimeout :: "nat \<Rightarrow> state \<Rightarrow> state" where
  "clear_autoStopTimeout r s =
     (case autoStopTimeout r s of
        Some i \<Rightarrow> set_autoStopTimeout r None (clearTimeout i s)
      | None \<Rightarrow> s)"

definition onstart :: "nat \<Rightarrow> state \<Rightarrow> state" where
  "onstart r s =
     (let s1 = s\<lparr>isListening := True, transcript := []\<rparr> in
      if isMobile s1 \<and> isVoiceModeRef s1
      then set_autoStopTimeout r (Some (nextTimer s1)) (setTimeout 10000 (AutoStop r) s1)
      else s1)"

text \<open>
  The callback of the auto-stop timer. Its \<open>isListening\<close> is the variable of the render
  in which the memoised \<open>startListening\<close> was created, not the current React state.
\<close>

definition autoStop_fire :: "nat \<Rightarrow> state \<Rightarrow> state" where
  "autoStop_fire r s =
     (if recognitionRef s \<noteq> None \<and> closure_isListening s then rec_stop r s else s)"

text \<open>
  The loop of \<open>onresult\<close> over \<open>event.results\<close> from \<open>event.resultIndex\<close> on. It carries
  \<open>interimTranscript\<close>, \<open>finalTranscript\<close>, \<open>hasNewFinal\<close> and \<open>finalTranscriptRef.current\<close>.
\<close>

fun onresult_loop ::
  "rec_result list \<Rightarrow> jsstring \<times> jsstring \<times> bool \<times> jsstring \<Rightarrow> jsstring \<times> jsstring \<times> bool \<times> jsstring"
where
  "onresult_loop [] acc = acc"
| "onresult_loop (result # rest) (interimT, finalT, hasNewFinal, fref) =
     (let t = trim (transcript0 result) in
      if isFinal result \<and> t \<noteq> [] then onresult_loop rest (interimT, finalT @ t, True, fref @ t)
      else if t \<noteq> [] then onresult_loop rest (interimT @ t, finalT, hasNewFinal, fref)
      else onresult_loop rest (interimT, finalT, hasNewFinal, fref))"

definition schedule_silence :: "nat \<Rightarrow> jsstring \<Rightarrow> state \<Rightarrow> state" where
  "schedule_silence d fullText s =
     (let s1 = (case silenceTimeoutRef s of Some i \<Rightarrow> clearTimeout i s | None \<Rightarrow> s)
      in (setTimeout d (SilenceTimer fullText) s1)\<lparr>silenceTimeoutRef := Some (nextTimer s1)\<rparr>)"

definition onresult :: "nat \<Rightarrow> SpeechRecognitionEvent \<Rightarrow> state \<Rightarrow> state" where
  "onresult r ev s =
     (let s1 = clear_autoStopTimeout r s;
          (interimTranscript, finalTranscript, hasNewFinal, fref) =
             onresult_loop (drop (resultIndex ev) (results ev))
               ([], [], False, finalTranscriptRef s1);
          s2 = s1\<lparr>finalTranscriptRef := fref\<rparr>;
          currentTranscript = finalTranscriptRef s2 @ interimTranscript;
          s3 = (if currentTranscript \<noteq> [] then s2\<lparr>transcript := currentTranscript\<rparr> else s2);
          s4 = (if hasNewFinal \<and> isVoiceModeRef s3 \<and> \<not> isProcessingRef s3
                then (let fullText = trim (finalTranscriptRef s3) in
                      if fullText \<noteq> [] \<and> length fullText > 1
                      then schedule_silence (if isMobile s3 then 500 else 300) fullText s3
                      else s3)
                else s3)
      in if isMobile s4 \<and> isVoiceModeRef s4 \<and> \<not> isProcessingRef s4 \<and> interimTranscript \<noteq> []
         then (let fullText = trim (finalTranscriptRef s4 @ interimTranscript) in
               if length fullText > 3 \<and>
                  (endsWith fullText (ascii ''.'') \<or> endsWith fullText (ascii ''?'') \<or>
                   endsWith fullText (ascii ''!'') \<or> length fullText > 10)
               then schedule_silence 800 fullText s4
               else s4)
         else s4)"

definition silence_fire :: "jsstring \<Rightarrow> state \<Rightarrow> state" where
  "silence_fire fullText s = (if \<not> isProcessingRef s then processVoiceResult fullText s else s)"

definition onend :: "nat \<Rightarrow> state \<Rightarrow> state" where
  "onend r s =
     (let s1 = s\<lparr>isListening := False, recognitionRef := None\<rparr>;
          s2 = clear_autoStopTimeout r s1;
          s3 = (if \<not> isVoiceModeRef s2 \<and> finalTranscriptRef s2 \<noteq> []
                then s2\<lparr>transcript := finalTranscriptRef s2\<rparr> else s2)
      in setTimeout 1000 ProcessingReset s3)"

definition onerror :: "nat \<Rightarrow> rec_error \<Rightarrow> state \<Rightarrow> state" where
  "onerror r err s =
     (let s1 = clear_autoStopTimeout r s;
          s2 = (case err of
                  Aborted \<Rightarrow> s1
                | NotAllowed \<Rightarrow> s1\<lparr>alerts := Suc (alerts s1)\<rparr>
                | NoSpeech \<Rightarrow>
                    (if isMobile s1 \<and> isVoiceModeRef s1 \<and> \<not> isProcessingRef s1
                     then setTimeout 1000 NoSpeechRestart s1 else s1)
                | OtherRecError \<Rightarrow> s1);
          s3 = s2\<lparr>isListening := False, recognitionRef := None\<rparr>
      in setTimeout 1000 ProcessingReset s3)"

definition noSpeechRestart_fire :: "state \<Rightarrow> state" where
  "noSpeechRestart_fire s =
     (if isVoiceModeRef s \<and> onSpeechEndRef s \<noteq> None
      then startListening (onSpeechEndRef s) s else s)"

definition stopListening :: "state \<Rightarrow> state" where
  "stopListening s =
     cleanup (s\<lparr>isVoiceModeRef := False, onSpeechEndRef := None, isProcessingRef := False,
               lastProcessedTextRef := []\<rparr>)"

definition resetTranscript :: "state \<Rightarrow> state" where
  "resetTranscript s =
     s\<lparr>transcript := [], finalTranscriptRef := [], lastProcessedTextRef := [],
       isProcessingRef := False\<rparr>"

definition restartListening :: "callback \<Rightarrow> state \<Rightarrow> state" where
  "restartListening onSpeechEnd s =
     (let s1 = (case timeoutRef s of Some i \<Rightarrow> clearTimeout i s | None \<Rightarrow> s);
          s2 = (case silenceTimeoutRef s1 of Some i \<Rightarrow> clearTimeout i s1 | None \<Rightarrow> s1);
          s3 = s2\<lparr>isProcessingRef := False, lastProcessedTextRef := []\<rparr>
      in (setTimeout 1500 (RestartTimer onSpeechEnd) s3)\<lparr>timeoutRef := Some (nextTimer s3)\<rparr>)"

definition restartTimer_fire :: "callback \<Rightarrow> state \<Rightarrow> state" where
  "restartTimer_fire onSpeechEnd s =
     (if isVoiceModeRef s then startListening (Some onSpeechEnd) s else s)"


section \<open>The component App\<close>

definition chat :: jsstring where
  "chat = ascii ''chat''"

definition session :: jsstring where
  "session = ascii ''user-session-1''"

text \<open>The fixed text shown when the failure is not a \<open>ChatApiError\<close>.\<close>

definition fallbackMessage :: jsstring where
  "fallbackMessage =
     [0x00DC] @ ascii ''zg'' @ [0x00FC] @ ascii ''n'' @ [0x00FC] @ ascii ''m, bir hata olu'' @
     [0x015F] @ ascii ''tu. L'' @ [0x00FC] @ ascii ''tfen tekrar deneyin.''"

definition errorMessage :: "call_error \<Rightarrow> jsstring" where
  "errorMessage err = (case err of ChatApiError m \<Rightarrow> m | OtherError \<Rightarrow> fallbackMessage)"

definition userMessage :: "jsstring \<Rightarrow> ChatAttachment option \<Rightarrow> ChatMessage" where
  "userMessage t att = \<lparr>m_id = None, m_type = User, m_message = t, m_attachment = att\<rparr>"

definition botMessage :: "ChatResponse \<Rightarrow> ChatMessage" where
  "botMessage d =
     \<lparr>m_id = (if d_id d \<noteq> [] then Some (d_id d) else None), m_type = Bot,
      m_message = d_textResponse d, m_attachment = None\<rparr>"

definition errorBotMessage :: "call_error \<Rightarrow> ChatMessage" where
  "errorBotMessage err =
     \<lparr>m_id = None, m_type = Bot, m_message = errorMessage err, m_attachment = None\<rparr>"

text \<open>\<open>handleVoiceConversation\<close> up to its \<open>await\<close>.\<close>

definition handleVoiceConversation :: "jsstring \<Rightarrow> state \<Rightarrow> state" where
  "handleVoiceConversation spokenText s =
     (if isProcessingVoiceRef s then s
      else if trim spokenText = [] \<or> length (trim spokenText) < 2
      then (if voiceModeRef s then restartListening HandleVoiceConversation s else s)
      else
        let s1 = s\<lparr>isProcessingVoiceRef := True\<rparr>;
            s2 = resetTranscript s1;
            s3 = s2\<lparr>currentUserSpeech := []\<rparr>;
            s4 = s3\<lparr>messages := messages s3 @ [userMessage spokenText None]\<rparr>;
            s5 = s4\<lparr>isLoading := True\<rparr>;
            s6 = stopSpeaking s5
        in sendChatMessage
             \<lparr>q_message = spokenText, q_mode = chat, q_sessionId = session,
              q_attachments = None, q_reset = None\<rparr> VoiceCall s6)"

text \<open>The rest of its \<open>try\<close> block, once the call has answered, with the \<open>finally\<close>.\<close>

definition voice_response :: "ChatResponse \<Rightarrow> state \<Rightarrow> state" where
  "voice_response d s =
     (let s1 = s\<lparr>messages := messages s @ [botMessage d]\<rparr>;
          s2 = (if d_textResponse d \<noteq> [] \<and> voiceModeRef s1
                then speak (d_textResponse d) (Some VoiceOnDone)
                       (s1\<lparr>currentBotSpeech := d_textResponse d\<rparr>)
                else if voiceModeRef s1
                then setTimeout 1000 VoiceRestart (s1\<lparr>isProcessingVoiceRef := False\<rparr>)
                else s1\<lparr>isProcessingVoiceRef := False\<rparr>)
      in s2\<lparr>isLoading := False\<rparr>)"

text \<open>Its \<open>catch\<close> block, with the \<open>finally\<close>.\<close>

definition voice_failure :: "call_error \<Rightarrow> state \<Rightarrow> state" where
  "voice_failure err s =
     (let s1 = s\<lparr>messages := messages s @ [errorBotMessage err]\<rparr>;
          s2 = s1\<lparr>isProcessingVoiceRef := False\<rparr>;
          s3 = (if voiceModeRef s2 then setTimeout 2000 VoiceRestart s2 else s2)
      in s3\<lparr>isLoading := False\<rparr>)"

text \<open>The completion callback given to \<open>speak\<close>, and the callback of its three timers.\<close>

definition voiceOnDone :: "state \<Rightarrow> state" where
  "voiceOnDone s =
     (let s1 = s\<lparr>currentBotSpeech := [], isProcessingVoiceRef := False\<rparr>
      in if voiceModeRef s1 then setTimeout 500 VoiceRestart s1 else s1)"

definition voiceRestart_fire :: "state \<Rightarrow> state" where
  "voiceRestart_fire s =
     (if voiceModeRef s \<and> \<not> isProcessingVoiceRef s
      then restartListening HandleVoiceConversation s else s)"

definition handleFileChange :: "image_file option \<Rightarrow> state \<Rightarrow> state" where
  "handleFileChange file s =
     (case file of
        None \<Rightarrow> s
      | Some f \<Rightarrow>
          if \<not> startsWith (f_type f) (ascii ''image/'') then s\<lparr>alerts := Suc (alerts s)\<rparr>
          else s\<lparr>attachment :=
                   Some \<lparr>a_name = f_name f, a_mime = f_type f, a_contentString = f_dataUrl f\<rparr>\<rparr>)"

text \<open>\<open>handleResetChat\<close>: the local part, then the whole handler up to its \<open>await\<close>.\<close>

definition clearLocal :: "state \<Rightarrow> state" where
  "clearLocal s =
     (let s1 = s\<lparr>messages := [], isVoiceMode := False, voiceModeRef := False,
                 isProcessingVoiceRef := False, currentUserSpeech := [],
                 currentBotSpeech := []\<rparr>
      in resetTranscript (stopListening (stopSpeaking s1)))"

definition resetRequest :: ChatRequest where
  "resetRequest =
     \<lparr>q_message = [], q_mode = chat, q_sessionId = session, q_attachments = None,
      q_reset = Some True\<rparr>"

definition handleResetChat :: "state \<Rightarrow> state" where
  "handleResetChat s =
     (if isLoading s then s else sendChatMessage resetRequest ResetCall (clearLocal s))"

text \<open>After the \<open>await\<close>: nothing on success, only \<open>console.error\<close> on failure.\<close>

definition reset_response :: "state \<Rightarrow> state" where
  "reset_response s = s"

definition reset_failure :: "call_error \<Rightarrow> state \<Rightarrow> state" where
  "reset_failure err s = s"

definition handleSendMessage :: "state \<Rightarrow> state" where
  "handleSendMessage s =
     (if trim (input s) = [] \<and> attachment s = None then s
      else
        let s1 = s\<lparr>messages := messages s @ [userMessage (input s) (attachment s)]\<rparr>;
            s2 = s1\<lparr>input := [], attachment := None\<rparr>;
            s3 = s2\<lparr>isLoading := True\<rparr>;
            s4 = resetTranscript (stopSpeaking s3)
        in sendChatMessage
             \<lparr>q_message = input s, q_mode = chat, q_sessionId = session,
              q_attachments = (case attachment s of Some a \<Rightarrow> Some [a] | None \<Rightarrow> None),
              q_reset = None\<rparr> (SendCall (autoSpeak s)) s4)"

definition send_response :: "bool \<Rightarrow> ChatResponse \<Rightarrow> state \<Rightarrow> state" where
  "send_response autoSpeak0 d s =
     (let s1 = s\<lparr>messages := messages s @ [botMessage d]\<rparr>;
          s2 = (if autoSpeak0 \<and> d_textResponse d \<noteq> []
                then setTimeout 500 (AutoSpeakTimer (d_textResponse d)) s1 else s1)
      in s2\<lparr>isLoading := False\<rparr>)"

definition send_failure :: "call_error \<Rightarrow> state \<Rightarrow> state" where
  "send_failure err s = (s\<lparr>messages := messages s @ [errorBotMessage err]\<rparr>)\<lparr>isLoading := False\<rparr>"

definition handleVoiceToggle :: "state \<Rightarrow> state" where
  "handleVoiceToggle s =
     (if isVoiceMode s
      then stopSpeaking (stopListening
             (s\<lparr>isVoiceMode := False, voiceModeRef := False, isProcessingVoiceRef := False,
                currentUserSpeech := [], currentBotSpeech := []\<rparr>))
      else startListening (Some HandleVoiceConversation) (resetTranscript
             (s\<lparr>isVoiceMode := True, voiceModeRef := True, isProcessingVoiceRef := False,
                currentUserSpeech := [], currentBotSpeech := []\<rparr>)))"

definition handleSpeakMessage :: "jsstring \<Rightarrow> state \<Rightarrow> state" where
  "handleSpeakMessage m s = (if isSpeaking s then stopSpeaking s else speak m None s)"

definition handleManualVoiceInput :: "state \<Rightarrow> state" where
  "handleManualVoiceInput s =
     (if isListening s then stopListening s else startListening None (resetTranscript s))"


section \<open>Rendering: memoised callbacks and effects\<close>

text \<open>
  \<open>startListening\<close> is built by \<open>useCallback\<close> with the dependencies \<open>isSupported\<close>,
  \<open>cleanup\<close> and \<open>processVoiceResult\<close>; the last two never change. A render replaces the
  memoised function, and with it the \<open>isSupported\<close> and \<open>isListening\<close> it closed over,
  only when \<open>isSupported\<close> differs from the one of the memoised function.
\<close>

definition useCallback_startListening :: "state \<Rightarrow> state" where
  "useCallback_startListening s =
     (if closure_isSupported s \<noteq> isSupported s
      then s\<lparr>closure_isSupported := isSupported s, closure_isListening := isListening s\<rparr>
      else s)"

text \<open>The three effects of \<open>App\<close>; each runs when its dependencies have changed.\<close>

definition effect_voiceRef :: "state \<Rightarrow> state" where
  "effect_voiceRef s =
     (if deps_voiceRef s = Some (isVoiceMode s) then s
      else s\<lparr>deps_voiceRef := Some (isVoiceMode s), voiceModeRef := isVoiceMode s\<rparr>)"

definition effect_userSpeech :: "state \<Rightarrow> state" where
  "effect_userSpeech s =
     (if deps_userSpeech s = Some (transcript s, isVoiceMode s) then s
      else
        let s1 = s\<lparr>deps_userSpeech := Some (transcript s, isVoiceMode s)\<rparr> in
        if isVoiceMode s \<and> transcript s \<noteq> [] then s1\<lparr>currentUserSpeech := transcript s\<rparr>
        else if \<not> isVoiceMode s then s1\<lparr>currentUserSpeech := []\<rparr>
        else s1)"

definition effect_manualMic :: "state \<Rightarrow> state" where
  "effect_manualMic s =
     (if deps_manualMic s = Some (transcript s, isVoiceMode s, isListening s) then s
      else
        let s1 = s\<lparr>deps_manualMic := Some (transcript s, isVoiceMode s, isListening s)\<rparr> in
        if transcript s \<noteq> [] \<and> \<not> isVoiceMode s \<and> \<not> isListening s
        then resetTranscript (s1\<lparr>input := input s1 @ transcript s\<rparr>)
        else s1)"

definition commit :: "state \<Rightarrow> state" where
  "commit s = effect_manualMic (effect_userSpeech (effect_voiceRef (useCallback_startListening s)))"

text \<open>
  An effect that sets state causes one more render; after the second the effects have
  nothing left to do (\<open>commit_render\<close> below).
\<close>

definition render :: "state \<Rightarrow> state" where
  "render s = commit (commit s)"

text \<open>A state in which no memoised callback is stale and no effect has anything to do.\<close>

definition rendered :: "state \<Rightarrow> bool" where
  "rendered s \<longleftrightarrow>
     closure_isSupported s = isSupported s \<and>
     deps_voiceRef s = Some (isVoiceMode s) \<and>
     deps_userSpeech s = Some (transcript s, isVoiceMode s) \<and>
     deps_manualMic s = Some (transcript s, isVoiceMode s, isListening s)"

section \<open>Events\<close>

datatype event =
    Mount
  | VoiceToggleClick
  | ResetClick
  | SendClick
  | ManualMicClick
  | AutoSpeakClick
  | SpeakMessageClick jsstring
  | InputChange jsstring
  | RemoveAttachmentClick
  | FileChange "image_file option"
  | TimerFire nat
  | PermissionAnswer nat bool bool
  | RecStart nat
  | RecResult nat SpeechRecognitionEvent
  | RecEnd nat
  | RecError nat rec_error
  | CallReturns nat ChatResponse
  | CallFails nat call_error
  | SpeechDone

definition fire :: "timer_action \<Rightarrow> state \<Rightarrow> state" where
  "fire a s =
     (case a of
        AutoStop r \<Rightarrow> autoStop_fire r s
      | SilenceTimer t \<Rightarrow> silence_fire t s
      | DispatchTimer cb t \<Rightarrow> (case cb of HandleVoiceConversation \<Rightarrow> handleVoiceConversation t s)
      | ProcessingReset \<Rightarrow> s\<lparr>isProcessingRef := False\<rparr>
      | NoSpeechRestart \<Rightarrow> noSpeechRestart_fire s
      | RestartTimer cb \<Rightarrow> restartTimer_fire cb s
      | VoiceRestart \<Rightarrow> voiceRestart_fire s
      | AutoSpeakTimer t \<Rightarrow> speak t None s)"

definition timerFire :: "nat \<Rightarrow> state \<Rightarrow> state" where
  "timerFire i s =
     (case map_of (timers s) i of
        None \<Rightarrow> s
      | Some t \<Rightarrow> fire (t_action t) (clearTimeout i s))"

definition permissionAnswer :: "nat \<Rightarrow> bool \<Rightarrow> bool \<Rightarrow> state \<Rightarrow> state" where
  "permissionAnswer i hasPermission startOk s =
     (case map_of (pendingStarts s) i of
        None \<Rightarrow> s
      | Some onSpeechEnd \<Rightarrow>
          startListening_resume onSpeechEnd hasPermission startOk
            (s\<lparr>pendingStarts := filter (\<lambda>p. fst p \<noteq> i) (pendingStarts s)\<rparr>))"

definition settle :: "nat \<Rightarrow> state \<Rightarrow> state" where
  "settle k s = s\<lparr>pendingCalls := filter (\<lambda>p. fst p \<noteq> k) (pendingCalls s)\<rparr>"

definition callReturns :: "nat \<Rightarrow> ChatResponse \<Rightarrow> state \<Rightarrow> state" where
  "callReturns k d s =
     (case map_of (pendingCalls s) k of
        None \<Rightarrow> s
      | Some VoiceCall \<Rightarrow> voice_response d (settle k s)
      | Some (SendCall a) \<Rightarrow> send_response a d (settle k s)
      | Some ResetCall \<Rightarrow> reset_response (settle k s))"

definition callFails :: "nat \<Rightarrow> call_error \<Rightarrow> state \<Rightarrow> state" where
  "callFails k err s =
     (case map_of (pendingCalls s) k of
        None \<Rightarrow> s
      | Some VoiceCall \<Rightarrow> voice_failure err (settle k s)
      | Some (SendCall a) \<Rightarrow> send_failure err (settle k s)
      | Some ResetCall \<Rightarrow> reset_failure err (settle k s))"

definition speechDone :: "state \<Rightarrow> state" where
  "speechDone s =
     (case utterance s of
        None \<Rightarrow> s
      | Some (t, onDone) \<Rightarrow>
          (let s1 = s\<lparr>isSpeaking := False, utterance := None\<rparr> in
           case onDone of Some VoiceOnDone \<Rightarrow> voiceOnDone s1 | None \<Rightarrow> s1))"

text \<open>
  What the page lets happen. In voice mode the full-screen view shows only the close
  button, which calls \<open>handleVoiceToggle\<close>. The text view disables the voice toggle, the
  reset button, the input field, the file button, the microphone button and the send
  button while \<open>isLoading\<close>, and shows the speech controls only where the browser has
  the capability. A recognizer delivers \<open>start\<close> once after \<open>start()\<close>, results while
  it runs or winds down after \<open>stop()\<close>, and errors and its \<open>end\<close> until it has ended.
\<close>

definition enabled :: "event \<Rightarrow> state \<Rightarrow> bool" where
  "enabled e s =
     (case e of
        Mount \<Rightarrow> True
      | VoiceToggleClick \<Rightarrow>
          isVoiceMode s \<or> (isSupported s \<and> speechSynthesisSupported s \<and> \<not> isLoading s)
      | ResetClick \<Rightarrow> \<not> isVoiceMode s \<and> \<not> isLoading s
      | SendClick \<Rightarrow> \<not> isVoiceMode s \<and> \<not> isLoading s
      | ManualMicClick \<Rightarrow> \<not> isVoiceMode s \<and> isSupported s \<and> \<not> isLoading s
      | AutoSpeakClick \<Rightarrow> \<not> isVoiceMode s \<and> speechSynthesisSupported s
      | SpeakMessageClick m \<Rightarrow>
          \<not> isVoiceMode s \<and> speechSynthesisSupported s \<and>
          m \<in> set (map m_message (filter (\<lambda>x. m_type x = Bot) (messages s)))
      | InputChange t \<Rightarrow> \<not> isVoiceMode s \<and> \<not> isLoading s
      | RemoveAttachmentClick \<Rightarrow> \<not> isVoiceMode s \<and> attachment s \<noteq> None
      | FileChange f \<Rightarrow> \<not> isVoiceMode s \<and> \<not> isLoading s
      | TimerFire i \<Rightarrow> map_of (timers s) i \<noteq> None
      | PermissionAnswer i p ok \<Rightarrow> map_of (pendingStarts s) i \<noteq> None
      | RecStart r \<Rightarrow> rec_status r s = Requested
      | RecResult r ev \<Rightarrow> rec_status r s = Running \<or> rec_status r s = Stopping
      | RecEnd r \<Rightarrow> rec_status r s \<noteq> Ended
      | RecError r err \<Rightarrow> rec_status r s \<noteq> Ended
      | CallReturns k d \<Rightarrow> map_of (pendingCalls s) k \<noteq> None
      | CallFails k err \<Rightarrow> map_of (pendingCalls s) k \<noteq> None
      | SpeechDone \<Rightarrow> utterance s \<noteq> None)"

definition handle :: "event \<Rightarrow> state \<Rightarrow> state" where
  "handle e s =
     (case e of
        Mount \<Rightarrow> (if hasSpeechRecognition s then s\<lparr>isSupported := True\<rparr> else s)
      | VoiceToggleClick \<Rightarrow> handleVoiceToggle s
      | ResetClick \<Rightarrow> handleResetChat s
      | SendClick \<Rightarrow> handleSendMessage s
      | ManualMicClick \<Rightarrow> handleManualVoiceInput s
      | AutoSpeakClick \<Rightarrow> s\<lparr>autoSpeak := \<not> autoSpeak s\<rparr>
      | SpeakMessageClick m \<Rightarrow> handleSpeakMessage m s
      | InputChange t \<Rightarrow> s\<lparr>input := t\<rparr>
      | RemoveAttachmentClick \<Rightarrow> s\<lparr>attachment := None\<rparr>
      | FileChange f \<Rightarrow> handleFileChange f s
      | TimerFire i \<Rightarrow> timerFire i s
      | PermissionAnswer i p ok \<Rightarrow> permissionAnswer i p ok s
      | RecStart r \<Rightarrow> onstart r (rec_set_status r Running s)
      | RecResult r ev \<Rightarrow> onresult r ev s
      | RecEnd r \<Rightarrow> onend r (rec_set_status r Ended s)
      | RecError r err \<Rightarrow> onerror r err s
      | CallReturns k d \<Rightarrow> callReturns k d s
      | CallFails k err \<Rightarrow> callFails k err s
      | SpeechDone \<Rightarrow> speechDone s)"

definition step :: "event \<Rightarrow> state \<Rightarrow> state" where
  "step e s = (if enabled e s then render (handle e s) else s)"

fun run :: "event list \<Rightarrow> state \<Rightarrow> state" where
  "run [] s = s"
| "run (e # es) s = run es (step e s)"

text \<open>A run in which the page and the browser let every event happen when its turn comes.\<close>

fun feasible :: "event list \<Rightarrow> state \<Rightarrow> bool" where
  "feasible [] s = True"
| "feasible (e # es) s = (enabled e s \<and> feasible es (step e s))"


section \<open>Example runs\<close>

text \<open>
  An observation \<open>f\<close> of the state \<open>s\<close>. The examples state what a run leads to through
  it, so that the run is evaluated once for all that is observed.
\<close>

definition observe :: "(state \<Rightarrow> 'a) \<Rightarrow> state \<Rightarrow> 'a" where
  "observe f s = f s"

text \<open>Inputs of the examples: spoken and typed text, an answer, a failure, an image.\<close>

definition hi :: jsstring where
  "hi = ascii ''hi''"

definition merhaba :: SpeechRecognitionEvent where
  "merhaba = \<lparr>results = [\<lparr>transcript0 = ascii ''merhaba'', isFinal = True\<rparr>], resultIndex = 0\<rparr>"

definition nasilsin :: SpeechRecognitionEvent where
  "nasilsin = \<lparr>results = [\<lparr>transcript0 = ascii ''nasilsin'', isFinal = True\<rparr>], resultIndex = 0\<rparr>"

definition selam :: ChatResponse where
  "selam = \<lparr>d_id = ascii ''r1'', d_textResponse = ascii ''selam''\<rparr>"

definition http500 :: call_error where
  "http500 = ChatApiError (ascii ''HTTP 500'')"

definition photo :: ChatAttachment where
  "photo = \<lparr>a_name = ascii ''a.png'', a_mime = ascii ''image/png'',
            a_contentString = ascii ''data:image/png;base64,AAAA''\<rparr>"

text \<open>The page after mounting, in a desktop and in a mobile browser with both speech APIs.\<close>

definition desktop :: state where
  "desktop = step Mount (init False True True)"

definition mobile :: state where
  "mobile = step Mount (init True True True)"

text \<open>Text chat: "hi" typed and sent, then answered.\<close>

definition sending :: state where
  "sending = run [InputChange hi, SendClick] desktop"

definition answered :: state where
  "answered = step (CallReturns 0 selam) sending"

text \<open>
  One voice turn on the desktop: voice mode on, microphone permission granted, the
  recognizer started, a final result "merhaba", the 300 ms debounce timer (timer 1) fired
  and the transcript accepted, so that the 100 ms dispatch timer (timer 2) is pending;
  then that timer fired (the call is outstanding) and the stopped recognizer ended.
\<close>

definition accepted :: state where
  "accepted =
     run [VoiceToggleClick, PermissionAnswer 0 True True, RecStart 0, RecResult 0 merhaba,
          TimerFire 1] desktop"

definition submitted :: state where
  "submitted = run [TimerFire 2, RecEnd 0] accepted"

text \<open>The turn answered with text, the playback finished, and the timers that follow.\<close>

definition speaking :: state where
  "speaking = step (CallReturns 0 selam) submitted"

definition played :: state where
  "played = step SpeechDone speaking"

definition settled :: state where
  "settled = step (TimerFire 4) played"

definition restarted :: state where
  "restarted = run [TimerFire 5, PermissionAnswer 1 True True, RecStart 1] settled"

text \<open>The turn failed instead, and the 2000 ms timer (timer 4) fired.\<close>

definition failed :: state where
  "failed = step (CallFails 0 http500) submitted"

definition failed_settled :: state where
  "failed_settled = step (TimerFire 4) failed"

text \<open>Voice mode left while the dispatch timer of the accepted transcript is pending.\<close>

definition exited :: state where
  "exited = step VoiceToggleClick accepted"

text \<open>
  Voice mode left while \<open>startListening\<close> waits for the microphone permission, which is
  then granted; the recognizer starts and hears "merhaba".
\<close>

definition late_start :: state where
  "late_start =
     run [VoiceToggleClick, VoiceToggleClick, PermissionAnswer 0 True True, RecStart 0] desktop"

definition late_turn :: state where
  "late_turn = run [RecResult 0 merhaba, TimerFire 1, TimerFire 2] late_start"

text \<open>
  "hi" typed, voice mode entered and left while the permission is pending, the
  recognizer started all the same and heard "merhaba"; "hi" sent (call 0); the debounce
  timer fired and the transcript was accepted, the stopped recognizer ended, the
  dispatch timer fired (call 1); call 0 answered; voice mode entered again, and
  "nasilsin" heard, accepted and dispatched (call 2).
\<close>

definition survived :: state where
  "survived =
     run [InputChange hi, VoiceToggleClick, VoiceToggleClick, PermissionAnswer 0 True True,
          RecStart 0, RecResult 0 merhaba, SendClick, TimerFire 1, RecEnd 0, TimerFire 2]
       desktop"

definition reentered :: state where
  "reentered = run [CallReturns 0 selam, VoiceToggleClick] survived"

definition overlap :: state where
  "overlap =
     run [PermissionAnswer 1 True True, RecStart 1, RecResult 1 nasilsin, TimerFire 5,
          TimerFire 6] reentered"

text \<open>Mobile: voice mode on, permission granted, the recognizer started, no result.\<close>

definition mobile_listening :: state where
  "mobile_listening = run [VoiceToggleClick, PermissionAnswer 0 True True, RecStart 0] mobile"

text \<open>Manual microphone: "hi" typed, the microphone started, "merhaba" heard.\<close>

definition dictating :: state where
  "dictating =
     run [InputChange hi, ManualMicClick, PermissionAnswer 0 True True, RecStart 0,
          RecResult 0 merhaba] desktop"

text \<open>Voice mode listening on the desktop.\<close>

definition listening :: state where
  "listening = run [VoiceToggleClick, PermissionAnswer 0 True True, RecStart 0] desktop"

text \<open>
  One-letter finals. On the desktop the recognizer reports a final "a", then a final "b"
  (the second event lists both results and starts at index 1); the debounce and the
  dispatch timer fire. On mobile the recognizer reports a final "a" and, capture not
  being continuous, ends; the timer set by \<open>onend\<close> fires.
\<close>

definition final_a :: SpeechRecognitionEvent where
  "final_a = \<lparr>results = [\<lparr>transcript0 = ascii ''a'', isFinal = True\<rparr>], resultIndex = 0\<rparr>"

definition final_b :: SpeechRecognitionEvent where
  "final_b =
     \<lparr>results = [\<lparr>transcript0 = ascii ''a'', isFinal = True\<rparr>,
                 \<lparr>transcript0 = ascii ''b'', isFinal = True\<rparr>], resultIndex = 1\<rparr>"

definition heard_a :: state where
  "heard_a = step (RecResult 0 final_a) listening"

definition heard_ab :: state where
  "heard_ab = step (RecResult 0 final_b) heard_a"

definition sent_ab :: state where
  "sent_ab = run [TimerFire 1, TimerFire 2] heard_ab"

definition mobile_heard_a :: state where
  "mobile_heard_a = run [RecResult 0 final_a, RecEnd 0] mobile_listening"

definition mobile_stuck :: state where
  "mobile_stuck = step (TimerFire 2) mobile_heard_a"

section \<open>The texts that timers carry\<close>

text \<open>
  A debounce or dispatch timer is in order when the text it carries has at least two
  code units after trimming; every other timer is.
\<close>

definition long_text :: "timer_action \<Rightarrow> bool" where
  "long_text a =
     (case a of
        SilenceTimer t \<Rightarrow> 2 \<le> length (trim t)
      | DispatchTimer cb t \<Rightarrow> 2 \<le> length (trim t)
      | _ \<Rightarrow> True)"

definition ok_timers :: "(nat \<times> timer) list \<Rightarrow> bool" where
  "ok_timers ts = list_all (\<lambda>p. long_text (t_action (snd p))) ts"

text \<open>The requests that one step sends.\<close>

definition sent :: "event \<Rightarrow> state \<Rightarrow> ChatRequest list" where
  "sent e s = drop (length (requests s)) (requests (step e s))"

section \<open>Rendering settles after two commits\<close>

lemma commit_rendered: "rendered s \<Longrightarrow> commit s = s"
  by (simp add: rendered_def commit_def useCallback_startListening_def effect_voiceRef_def
      effect_userSpeech_def effect_manualMic_def)

lemma commit_fields:
  "closure_isSupported (commit s) = isSupported s"
  "isSupported (commit s) = isSupported s"
  "deps_voiceRef (commit s) = Some (isVoiceMode s)"
  "isVoiceMode (commit s) = isVoiceMode s"
  "isListening (commit s) = isListening s"
  "deps_manualMic (commit s) = Some (transcript s, isVoiceMode s, isListening s)"
  "deps_userSpeech (commit s) = Some (transcript s, isVoiceMode s)"
  by (simp_all add: commit_def useCallback_startListening_def effect_voiceRef_def
      effect_userSpeech_def effect_manualMic_def resetTranscript_def Let_def)

lemma commit_transcript:
  "transcript (commit s) = transcript s \<or> transcript (commit s) = []"
  "transcript s = [] \<Longrightarrow> transcript (commit s) = []"
  "deps_manualMic s = Some (transcript s, isVoiceMode s, isListening s) \<Longrightarrow>
     transcript (commit s) = transcript s"
  by (simp_all add: commit_def useCallback_startListening_def effect_voiceRef_def
      effect_userSpeech_def effect_manualMic_def resetTranscript_def Let_def)

lemma commit_commit_transcript: "transcript (commit (commit s)) = transcript (commit s)"
proof (cases "transcript (commit s) = []")
  case True
  then show ?thesis by (simp add: commit_transcript(2))
next
  case False
  with commit_transcript(1) [of s] have "transcript (commit s) = transcript s" by simp
  then have "deps_manualMic (commit s) =
      Some (transcript (commit s), isVoiceMode (commit s), isListening (commit s))"
    by (simp add: commit_fields)
  then show ?thesis by (rule commit_transcript(3))
qed

lemma render_rendered: "rendered (render s)"
  unfolding rendered_def render_def
  by (simp only: commit_fields commit_commit_transcript simp_thms)

lemma commit_render: "commit (render s) = render s"
  by (rule commit_rendered [OF render_rendered])

section \<open>The example runs can happen\<close>

text \<open>
  In each example run every event is enabled when its turn comes: the control clicked is
  shown and not disabled, the timer fired is pending, the call answered is outstanding,
  the recognizer reporting is alive.
\<close>

lemma desktop_feasible: "feasible [Mount] (init False True True)"
proof -
  have "observe (feasible [Mount]) (init False True True)"
    by code_simp
  then show ?thesis by (simp add: observe_def)
qed

lemma mobile_feasible: "feasible [Mount] (init True True True)"
proof -
  have "observe (feasible [Mount]) (init True True True)"
    by code_simp
  then show ?thesis by (simp add: observe_def)
qed

lemma sending_feasible: "feasible [InputChange hi, SendClick] desktop"
proof -
  have "observe (feasible [InputChange hi, SendClick]) desktop"
    by code_simp
  then show ?thesis by (simp add: observe_def)
qed

lemma answered_feasible: "feasible [CallReturns 0 selam] sending"
proof -
  have "observe (feasible [CallReturns 0 selam]) sending"
    by code_simp
  then show ?thesis by (simp add: observe_def)
qed

lemma accepted_feasible: "feasible [VoiceToggleClick, PermissionAnswer 0 True True, RecStart 0,
      RecResult 0 merhaba, TimerFire 1] desktop"
proof -
  have "observe (feasible [VoiceToggleClick, PermissionAnswer 0 True True, RecStart 0,
      RecResult 0 merhaba, TimerFire 1]) desktop"
    by code_simp
  then show ?thesis by (simp add: observe_def)
qed

lemma submitted_feasible: "feasible [TimerFire 2, RecEnd 0] accepted"
proof -
  have "observe (feasible [TimerFire 2, RecEnd 0]) accepted"
    by code_simp
  then show ?thesis by (simp add: observe_def)
qed

lemma speaking_feasible: "feasible [CallReturns 0 selam] submitted"
proof -
  have "observe (feasible [CallReturns 0 selam]) submitted"
    by code_simp
  then show ?thesis by (simp add: observe_def)
qed

lemma played_feasible: "feasible [SpeechDone] speaking"
proof -
  have "observe (feasible [SpeechDone]) speaking"
    by code_simp
  then show ?thesis by (simp add: observe_def)
qed

lemma settled_feasible: "feasible [TimerFire 4] played"
proof -
  have "observe (feasible [TimerFire 4]) played"
    by code_simp
  then show ?thesis by (simp add: observe_def)
qed

lemma restarted_feasible: "feasible [TimerFire 5, PermissionAnswer 1 True True,
      RecStart 1] settled"
proof -
  have "observe (feasible [TimerFire 5, PermissionAnswer 1 True True, RecStart 1]) settled"
    by code_simp
  then show ?thesis by (simp add: observe_def)
qed

lemma failed_feasible: "feasible [CallFails 0 http500] submitted"
proof -
  have "observe (feasible [CallFails 0 http500]) submitted"
    by code_simp
  then show ?thesis by (simp add: observe_def)
qed

lemma failed_settled_feasible: "feasible [TimerFire 4] failed"
proof -
  have "observe (feasible [TimerFire 4]) failed"
    by code_simp
  then show ?thesis by (simp add: observe_def)
qed

lemma exited_feasible: "feasible [VoiceToggleClick] accepted"
proof -
  have "observe (feasible [VoiceToggleClick]) accepted"
    by code_simp
  then show ?thesis by (simp add: observe_def)
qed

lemma late_start_feasible: "feasible [VoiceToggleClick, VoiceToggleClick,
      PermissionAnswer 0 True True, RecStart 0] desktop"
proof -
  have "observe (feasible [VoiceToggleClick, VoiceToggleClick, PermissionAnswer 0 True True,
      RecStart 0]) desktop"
    by code_simp
  then show ?thesis by (simp add: observe_def)
qed

lemma late_turn_feasible: "feasible [RecResult 0 merhaba, TimerFire 1,
      TimerFire 2] late_start"
proof -
  have "observe (feasible [RecResult 0 merhaba, TimerFire 1, TimerFire 2]) late_start"
    by code_simp
  then show ?thesis by (simp add: observe_def)
qed

lemma survived_feasible: "feasible [InputChange hi, VoiceToggleClick, VoiceToggleClick,
      PermissionAnswer 0 True True, RecStart 0, RecResult 0 merhaba, SendClick, TimerFire 1,
      RecEnd 0, TimerFire 2] desktop"
proof -
  have "observe (feasible [InputChange hi, VoiceToggleClick, VoiceToggleClick,
      PermissionAnswer 0 True True, RecStart 0, RecResult 0 merhaba, SendClick, TimerFire 1,
      RecEnd 0, TimerFire 2]) desktop"
    by code_simp
  then show ?thesis by (simp add: observe_def)
qed

lemma reentered_feasible: "feasible [CallReturns 0 selam, VoiceToggleClick] survived"
proof -
  have "observe (feasible [CallReturns 0 selam, VoiceToggleClick]) survived"
    by code_simp
  then show ?thesis by (simp add: observe_def)
qed

lemma overlap_feasible: "feasible [PermissionAnswer 1 True True, RecStart 1,
      RecResult 1 nasilsin, TimerFire 5, TimerFire 6] reentered"
proof -
  have "observe (feasible [PermissionAnswer 1 True True, RecStart 1, RecResult 1 nasilsin,
      TimerFire 5, TimerFire 6]) reentered"
    by code_simp
  then show ?thesis by (simp add: observe_def)
qed

lemma mobile_listening_feasible: "feasible [VoiceToggleClick, PermissionAnswer 0 True True,
      RecStart 0] mobile"
proof -
  have "observe (feasible [VoiceToggleClick, PermissionAnswer 0 True True,
      RecStart 0]) mobile"
    by code_simp
  then show ?thesis by (simp add: observe_def)
qed

lemma dictating_feasible: "feasible [InputChange hi, ManualMicClick,
      PermissionAnswer 0 True True, RecStart 0, RecResult 0 merhaba] desktop"
proof -
  have "observe (feasible [InputChange hi, ManualMicClick, PermissionAnswer 0 True True,
      RecStart 0, RecResult 0 merhaba]) desktop"
    by code_simp
  then show ?thesis by (simp add: observe_def)
qed

lemma listening_feasible: "feasible [VoiceToggleClick, PermissionAnswer 0 True True,
      RecStart 0] desktop"
proof -
  have "observe (feasible [VoiceToggleClick, PermissionAnswer 0 True True,
      RecStart 0]) desktop"
    by code_simp
  then show ?thesis by (simp add: observe_def)
qed

lemma heard_a_feasible: "feasible [RecResult 0 final_a] listening"
proof -
  have "observe (feasible [RecResult 0 final_a]) listening"
    by code_simp
  then show ?thesis by (simp add: observe_def)
qed

lemma heard_ab_feasible: "feasible [RecResult 0 final_b] heard_a"
proof -
  have "observe (feasible [RecResult 0 final_b]) heard_a"
    by code_simp
  then show ?thesis by (simp add: observe_def)
qed

lemma sent_ab_feasible: "feasible [TimerFire 1, TimerFire 2] heard_ab"
proof -
  have "observe (feasible [TimerFire 1, TimerFire 2]) heard_ab"
    by code_simp
  then show ?thesis by (simp add: observe_def)
qed

lemma mobile_heard_a_feasible: "feasible [RecResult 0 final_a, RecEnd 0] mobile_listening"
proof -
  have "observe (feasible [RecResult 0 final_a, RecEnd 0]) mobile_listening"
    by code_simp
  then show ?thesis by (simp add: observe_def)
qed

lemma mobile_stuck_feasible: "feasible [TimerFire 2] mobile_heard_a"
proof -
  have "observe (feasible [TimerFire 2]) mobile_heard_a"
    by code_simp
  then show ?thesis by (simp add: observe_def)
qed

section \<open>Rendering leaves the chat and the network alone\<close>

lemma useCallback_frame:
  "requests (useCallback_startListening s) = requests s"
  "pendingCalls (useCallback_startListening s) = pendingCalls s"
  "messages (useCallback_startListening s) = messages s"
  "alerts (useCallback_startListening s) = alerts s"
  "isVoiceMode (useCallback_startListening s) = isVoiceMode s"
  by (simp_all add: useCallback_startListening_def)

lemma effect_voiceRef_frame:
  "requests (effect_voiceRef s) = requests s"
  "pendingCalls (effect_voiceRef s) = pendingCalls s"
  "messages (effect_voiceRef s) = messages s"
  "alerts (effect_voiceRef s) = alerts s"
  "isVoiceMode (effect_voiceRef s) = isVoiceMode s"
  by (simp_all add: effect_voiceRef_def)

lemma effect_userSpeech_frame:
  "requests (effect_userSpeech s) = requests s"
  "pendingCalls (effect_userSpeech s) = pendingCalls s"
  "messages (effect_userSpeech s) = messages s"
  "alerts (effect_userSpeech s) = alerts s"
  "isVoiceMode (effect_userSpeech s) = isVoiceMode s"
  by (simp_all add: effect_userSpeech_def Let_def)

lemma effect_manualMic_frame:
  "requests (effect_manualMic s) = requests s"
  "pendingCalls (effect_manualMic s) = pendingCalls s"
  "messages (effect_manualMic s) = messages s"
  "alerts (effect_manualMic s) = alerts s"
  "isVoiceMode (effect_manualMic s) = isVoiceMode s"
  by (simp_all add: effect_manualMic_def resetTranscript_def Let_def)

lemma render_frame:
  "requests (render s) = requests s"
  "pendingCalls (render s) = pendingCalls s"
  "messages (render s) = messages s"
  "alerts (render s) = alerts s"
  "isVoiceMode (render s) = isVoiceMode s"
  by (simp_all only: render_def commit_def useCallback_frame effect_voiceRef_frame
      effect_userSpeech_frame effect_manualMic_frame)

lemma restartListening_frame:
  "requests (restartListening cb s) = requests s"
  "pendingCalls (restartListening cb s) = pendingCalls s"
  "messages (restartListening cb s) = messages s"
  by (simp_all add: restartListening_def clearTimeout_def setTimeout_def Let_def
      split: option.splits)

section \<open>Sending and resetting\<close>

text \<open>
  C7. \<open>handleSendMessage\<close> accepts an attachment with blank text and non-blank text
  without an attachment: the user message is appended and one request is sent, with the
  attachment or without. With blank text and no attachment it changes nothing: no
  message is appended and no request is sent.
\<close>

theorem send_accepts_text_or_attachment:
  "(trim (input s) = [] \<and> attachment s = Some a \<longrightarrow>
      messages (handleSendMessage s) = messages s @ [userMessage (input s) (Some a)] \<and>
      requests (handleSendMessage s) = requests s @
        [\<lparr>q_message = input s, q_mode = chat, q_sessionId = session,
          q_attachments = Some [a], q_reset = None\<rparr>]) \<and>
   (trim (input s) \<noteq> [] \<and> attachment s = None \<longrightarrow>
      messages (handleSendMessage s) = messages s @ [userMessage (input s) None] \<and>
      requests (handleSendMessage s) = requests s @
        [\<lparr>q_message = input s, q_mode = chat, q_sessionId = session,
          q_attachments = None, q_reset = None\<rparr>]) \<and>
   (trim (input s) = [] \<and> attachment s = None \<longrightarrow> handleSendMessage s = s)"
  by (simp add: handleSendMessage_def sendChatMessage_def resetTranscript_def
      stopSpeaking_def Let_def)

theorem send_accepts_text_or_attachment_witness:
  "length (messages (handleSendMessage (desktop\<lparr>input := ascii '' '', attachment := Some photo\<rparr>))) = 1 \<and>
   length (requests (handleSendMessage (desktop\<lparr>input := ascii '' '', attachment := Some photo\<rparr>))) = 1 \<and>
   length (messages (handleSendMessage (desktop\<lparr>input := hi\<rparr>))) = 1 \<and>
   length (requests (handleSendMessage (desktop\<lparr>input := hi\<rparr>))) = 1 \<and>
   handleSendMessage (desktop\<lparr>input := ascii '' ''\<rparr>) = desktop\<lparr>input := ascii '' ''\<rparr>"
proof -
  have blank: "trim (ascii '' '') = []"
    by (simp add: trim_def ascii_def isTrimChar_def)
  have nonblank: "trim hi \<noteq> []"
    by (simp add: trim_def ascii_def isTrimChar_def hi_def)
  have "observe (\<lambda>s. (attachment s, messages s, requests s)) desktop = (None, [], [])"
    by code_simp
  then have none: "attachment desktop = None" "messages desktop = []" "requests desktop = []"
    by (simp_all add: observe_def)
  show ?thesis
    using send_accepts_text_or_attachment
            [of "desktop\<lparr>input := ascii '' '', attachment := Some photo\<rparr>" photo]
          send_accepts_text_or_attachment [of "desktop\<lparr>input := hi\<rparr>" photo]
          send_accepts_text_or_attachment [of "desktop\<lparr>input := ascii '' ''\<rparr>" photo]
          blank nonblank none
    by simp
qed

text \<open>What \<open>handleResetChat\<close> does when no call is loading.\<close>

lemma handleResetChat_clears:
  "\<not> isLoading s \<Longrightarrow>
     messages (handleResetChat s) = [] \<and>
     requests (handleResetChat s) = requests s @ [resetRequest]"
  by (simp add: handleResetChat_def sendChatMessage_def clearLocal_def resetTranscript_def
      stopListening_def cleanup_def stopSpeaking_def clearTimeout_def rec_abort_def
      rec_set_status_def Let_def split: option.splits)

text \<open>
  C8. The reset operation is a click on the reset button, which the page shows in the
  text view only and disables while a call is loading. Whenever it can happen it clears
  the message list and sends one request, whose reset flag is true.
\<close>

theorem reset_click_clears_and_notifies:
  "enabled ResetClick s \<Longrightarrow>
     \<not> isLoading s \<and>
     messages (step ResetClick s) = [] \<and>
     requests (step ResetClick s) = requests s @ [resetRequest] \<and>
     q_reset resetRequest = Some True"
proof -
  assume can: "enabled ResetClick s"
  then have idle: "\<not> isLoading s"
    by (simp add: enabled_def)
  have "step ResetClick s = render (handleResetChat s)"
    using can by (simp add: step_def handle_def)
  with handleResetChat_clears [OF idle] idle show ?thesis
    by (simp add: render_frame resetRequest_def)
qed

theorem reset_click_clears_and_notifies_witness:
  "enabled ResetClick answered \<and>
   messages answered \<noteq> [] \<and>
   messages (step ResetClick answered) = [] \<and>
   requests (step ResetClick answered) = requests answered @ [resetRequest]"
proof -
  have "observe (\<lambda>s. (enabled ResetClick s, messages s \<noteq> [])) answered = (True, True)"
    by code_simp
  then have can: "enabled ResetClick answered" and some: "messages answered \<noteq> []"
    by (simp_all add: observe_def)
  from reset_click_clears_and_notifies [OF can] can some show ?thesis by simp
qed

text \<open>
  The failure of a reset call leaves every part of the state as it is, except that the
  call is no longer outstanding.
\<close>

lemma reset_failure_silent:
  "map_of (pendingCalls u) k = Some ResetCall \<Longrightarrow> callFails k err u = settle k u"
  by (simp add: callFails_def reset_failure_def)

lemma clearLocal_cleared:
  "messages (clearLocal s) = []"
  "\<not> isVoiceMode (clearLocal s)"
  "\<not> voiceModeRef (clearLocal s)"
  "\<not> isProcessingVoiceRef (clearLocal s)"
  "currentUserSpeech (clearLocal s) = []"
  "currentBotSpeech (clearLocal s) = []"
  "transcript (clearLocal s) = []"
  "\<not> isListening (clearLocal s)"
  "\<not> isSpeaking (clearLocal s)"
  "recognitionRef (clearLocal s) = None"
  "requests (clearLocal s) = requests s"
  "pendingCalls (clearLocal s) = pendingCalls s"
  "alerts (clearLocal s) = alerts s"
  by (simp_all add: clearLocal_def resetTranscript_def stopListening_def cleanup_def
      stopSpeaking_def clearTimeout_def rec_abort_def rec_set_status_def Let_def
      split: option.splits)

text \<open>
  C10. \<open>handleResetChat\<close> is gated on \<open>isLoading\<close>: while it is set the handler changes
  nothing and sends nothing. Otherwise the request is sent from the state \<open>clearLocal s\<close>,
  in which the message list, voice mode and the turn state are already cleared and
  nothing has been sent yet. When the reset call then fails, the state stays as it is
  but for the call no longer being outstanding: the messages stay cleared, no message is
  appended and no alert is raised.
\<close>

theorem reset_gated_on_loading:
  "(isLoading s \<longrightarrow> handleResetChat s = s) \<and>
   (\<not> isLoading s \<longrightarrow>
      handleResetChat s = sendChatMessage resetRequest ResetCall (clearLocal s) \<and>
      messages (clearLocal s) = [] \<and> \<not> isVoiceMode (clearLocal s) \<and>
      \<not> voiceModeRef (clearLocal s) \<and> \<not> isProcessingVoiceRef (clearLocal s) \<and>
      currentUserSpeech (clearLocal s) = [] \<and> currentBotSpeech (clearLocal s) = [] \<and>
      transcript (clearLocal s) = [] \<and> \<not> isListening (clearLocal s) \<and>
      \<not> isSpeaking (clearLocal s) \<and> requests (clearLocal s) = requests s \<and>
      (map_of (pendingCalls (handleResetChat s)) k = Some ResetCall \<longrightarrow>
         callFails k err (handleResetChat s) = settle k (handleResetChat s) \<and>
         messages (step (CallFails k err) (handleResetChat s)) = [] \<and>
         alerts (step (CallFails k err) (handleResetChat s)) = alerts s \<and>
         requests (step (CallFails k err) (handleResetChat s)) = requests s @ [resetRequest]))"
proof -
  have gate: "isLoading s \<longrightarrow> handleResetChat s = s"
    by (simp add: handleResetChat_def)
  have "messages (step (CallFails k err) (handleResetChat s)) = [] \<and>
        alerts (step (CallFails k err) (handleResetChat s)) = alerts s \<and>
        requests (step (CallFails k err) (handleResetChat s)) = requests s @ [resetRequest]"
    if idle: "\<not> isLoading s"
      and pending: "map_of (pendingCalls (handleResetChat s)) k = Some ResetCall"
  proof -
    have "step (CallFails k err) (handleResetChat s) = render (settle k (handleResetChat s))"
      using pending by (simp add: step_def enabled_def handle_def reset_failure_silent)
    then show ?thesis
      using idle
      by (simp add: render_frame settle_def handleResetChat_def sendChatMessage_def
          clearLocal_cleared)
  qed
  then show ?thesis
    using gate by (simp add: handleResetChat_def clearLocal_cleared reset_failure_silent)
qed

theorem reset_gated_on_loading_witness:
  "handleResetChat sending = sending \<and>
   messages answered \<noteq> [] \<and>
   messages (step (CallFails 1 OtherError) (handleResetChat answered)) = [] \<and>
   alerts (step (CallFails 1 OtherError) (handleResetChat answered)) = alerts answered"
proof -
  have busy: "isLoading sending" by code_simp
  have "observe (\<lambda>s. (isLoading s, messages s \<noteq> [],
                     map_of (pendingCalls (handleResetChat s)) 1)) answered =
        (False, True, Some ResetCall)"
    by code_simp
  then have idle: "\<not> isLoading answered" and some: "messages answered \<noteq> []"
    and pending: "map_of (pendingCalls (handleResetChat answered)) 1 = Some ResetCall"
    by (simp_all add: observe_def)
  have a: "handleResetChat sending = sending"
    using reset_gated_on_loading [of sending 1 OtherError] busy by blast
  have b: "messages (step (CallFails 1 OtherError) (handleResetChat answered)) = [] \<and>
           alerts (step (CallFails 1 OtherError) (handleResetChat answered)) = alerts answered"
    using reset_gated_on_loading [of answered 1 OtherError] idle pending by blast
  from a b some show ?thesis by blast
qed

section \<open>Short transcripts\<close>

text \<open>Trimming a trimmed text changes nothing.\<close>

lemma dropWhile_id: "xs = [] \<or> \<not> P (hd xs) \<Longrightarrow> dropWhile P xs = xs"
  by (cases xs) auto

lemma trim_ends:
  "trim t = [] \<or> (\<not> isTrimChar (hd (trim t)) \<and> \<not> isTrimChar (last (trim t)))"
proof (cases "trim t = []")
  case True
  then show ?thesis by simp
next
  case False
  let ?u = "dropWhile isTrimChar t"
  let ?w = "dropWhile isTrimChar (rev ?u)"
  have w: "?w \<noteq> []" using False by (simp add: trim_def)
  then have hw: "\<not> isTrimChar (hd ?w)" by (rule hd_dropWhile)
  have "rev ?u = takeWhile isTrimChar (rev ?u) @ ?w" by simp
  then have "?u = rev ?w @ rev (takeWhile isTrimChar (rev ?u))"
    by (metis rev_append rev_rev_ident)
  then have "hd ?u = hd (rev ?w)" using w by (metis hd_append2 rev_is_Nil_conv)
  moreover have "?u \<noteq> []"
  proof
    assume empty: "?u = []"
    have "?w = []" unfolding empty by simp
    with w show False by simp
  qed
  then have "\<not> isTrimChar (hd ?u)" by (rule hd_dropWhile)
  ultimately have "\<not> isTrimChar (hd (trim t))" by (simp add: trim_def)
  moreover have "last (trim t) = hd ?w" using w by (simp add: trim_def last_rev)
  ultimately show ?thesis using hw by simp
qed

lemma trim_trim: "trim (trim t) = trim t"
proof (cases "trim t = []")
  case True
  have "trim [] = []" by (simp add: trim_def)
  with True show ?thesis by simp
next
  case False
  with trim_ends [of t] have e: "\<not> isTrimChar (hd (trim t))" "\<not> isTrimChar (last (trim t))"
    by auto
  have a: "dropWhile isTrimChar (trim t) = trim t"
    using e(1) by (simp add: dropWhile_id)
  have "hd (rev (trim t)) = last (trim t)" using False by (simp add: hd_rev)
  then have b: "dropWhile isTrimChar (rev (trim t)) = rev (trim t)"
    using e(2) by (simp add: dropWhile_id)
  show ?thesis
    unfolding trim_def [of "trim t"] by (simp only: a b rev_rev_ident)
qed

text \<open>
  Every function of the hook and of \<open>App\<close> keeps the pending timers in order: the
  debounce timers that \<open>onresult\<close> sets carry a text longer than one code unit, and
  the dispatch timer that \<open>processVoiceResult\<close> sets carries a text of two or more.
\<close>

named_theorems ok_frame

lemma ok_timers_append: "ok_timers (ts @ [p]) = (ok_timers ts \<and> long_text (t_action (snd p)))"
  by (auto simp add: ok_timers_def)

lemma ok_timers_filter: "ok_timers ts \<Longrightarrow> ok_timers (filter P ts)"
  by (simp add: ok_timers_def list_all_iff)

lemma setTimeout_ok [ok_frame]:
  "ok_timers (timers (setTimeout d a s)) = (ok_timers (timers s) \<and> long_text a)"
  by (simp add: setTimeout_def ok_timers_append)

lemma schedule_silence_ok [ok_frame]:
  "ok_timers (timers s) \<Longrightarrow> 2 \<le> length (trim t) \<Longrightarrow>
     ok_timers (timers (schedule_silence d t s))"
  by (simp add: schedule_silence_def clearTimeout_def ok_timers_filter ok_frame long_text_def
      Let_def split: option.splits)

lemma clearTimeout_ok [ok_frame]:
  "ok_timers (timers s) \<Longrightarrow> ok_timers (timers (clearTimeout i s))"
  by (simp add: clearTimeout_def ok_frame ok_timers_filter long_text_def trim_trim Let_def
      split: option.splits prod.splits rec_error.splits timer_action.splits callback.splits
        call_kind.splits speech_cb.splits)

lemma sendChatMessage_ok [ok_frame]:
  "ok_timers (timers s) \<Longrightarrow> ok_timers (timers (sendChatMessage req k s))"
  by (simp add: sendChatMessage_def ok_frame long_text_def trim_trim Let_def
      split: option.splits prod.splits rec_error.splits timer_action.splits callback.splits
        call_kind.splits speech_cb.splits)

lemma speak_ok [ok_frame]:
  "ok_timers (timers s) \<Longrightarrow> ok_timers (timers (speak t onDone s))"
  by (simp add: speak_def ok_frame long_text_def trim_trim Let_def
      split: option.splits prod.splits rec_error.splits timer_action.splits callback.splits
        call_kind.splits speech_cb.splits)

lemma stopSpeaking_ok [ok_frame]:
  "ok_timers (timers s) \<Longrightarrow> ok_timers (timers (stopSpeaking s))"
  by (simp add: stopSpeaking_def ok_frame long_text_def trim_trim Let_def
      split: option.splits prod.splits rec_error.splits timer_action.splits callback.splits
        call_kind.splits speech_cb.splits)

lemma rec_set_status_ok [ok_frame]:
  "ok_timers (timers s) \<Longrightarrow> ok_timers (timers (rec_set_status r st s))"
  by (simp add: rec_set_status_def ok_frame long_text_def trim_trim Let_def
      split: option.splits prod.splits rec_error.splits timer_action.splits callback.splits
        call_kind.splits speech_cb.splits)

lemma rec_stop_ok [ok_frame]:
  "ok_timers (timers s) \<Longrightarrow> ok_timers (timers (rec_stop r s))"
  by (simp add: rec_stop_def ok_frame long_text_def trim_trim Let_def
      split: option.splits prod.splits rec_error.splits timer_action.splits callback.splits
        call_kind.splits speech_cb.splits)

lemma rec_abort_ok [ok_frame]:
  "ok_timers (timers s) \<Longrightarrow> ok_timers (timers (rec_abort r s))"
  by (simp add: rec_abort_def ok_frame long_text_def trim_trim Let_def
      split: option.splits prod.splits rec_error.splits timer_action.splits callback.splits
        call_kind.splits speech_cb.splits)

lemma cleanup_ok [ok_frame]:
  "ok_timers (timers s) \<Longrightarrow> ok_timers (timers (cleanup s))"
  by (simp add: cleanup_def ok_frame long_text_def trim_trim Let_def
      split: option.splits prod.splits rec_error.splits timer_action.splits callback.splits
        call_kind.splits speech_cb.splits)

lemma processVoiceResult_ok [ok_frame]:
  "ok_timers (timers s) \<Longrightarrow> ok_timers (timers (processVoiceResult t s))"
  by (simp add: processVoiceResult_def ok_frame long_text_def trim_trim Let_def
      split: option.splits prod.splits rec_error.splits timer_action.splits callback.splits
        call_kind.splits speech_cb.splits)

lemma startListening_ok [ok_frame]:
  "ok_timers (timers s) \<Longrightarrow> ok_timers (timers (startListening cb s))"
  by (simp add: startListening_def ok_frame long_text_def trim_trim Let_def
      split: option.splits prod.splits rec_error.splits timer_action.splits callback.splits
        call_kind.splits speech_cb.splits)

lemma startListening_resume_ok [ok_frame]:
  "ok_timers (timers s) \<Longrightarrow> ok_timers (timers (startListening_resume cb p ok s))"
  by (simp add: startListening_resume_def ok_frame long_text_def trim_trim Let_def
      split: option.splits prod.splits rec_error.splits timer_action.splits callback.splits
        call_kind.splits speech_cb.splits)

lemma set_autoStopTimeout_ok [ok_frame]:
  "ok_timers (timers s) \<Longrightarrow> ok_timers (timers (set_autoStopTimeout r v s))"
  by (simp add: set_autoStopTimeout_def ok_frame long_text_def trim_trim Let_def
      split: option.splits prod.splits rec_error.splits timer_action.splits callback.splits
        call_kind.splits speech_cb.splits)

lemma clear_autoStopTimeout_ok [ok_frame]:
  "ok_timers (timers s) \<Longrightarrow> ok_timers (timers (clear_autoStopTimeout r s))"
  by (simp add: clear_autoStopTimeout_def ok_frame long_text_def trim_trim Let_def
      split: option.splits prod.splits rec_error.splits timer_action.splits callback.splits
        call_kind.splits speech_cb.splits)

lemma onstart_ok [ok_frame]:
  "ok_timers (timers s) \<Longrightarrow> ok_timers (timers (onstart r s))"
  by (simp add: onstart_def ok_frame long_text_def trim_trim Let_def
      split: option.splits prod.splits rec_error.splits timer_action.splits callback.splits
        call_kind.splits speech_cb.splits)

lemma autoStop_fire_ok [ok_frame]:
  "ok_timers (timers s) \<Longrightarrow> ok_timers (timers (autoStop_fire r s))"
  by (simp add: autoStop_fire_def ok_frame long_text_def trim_trim Let_def
      split: option.splits prod.splits rec_error.splits timer_action.splits callback.splits
        call_kind.splits speech_cb.splits)

lemma onresult_ok [ok_frame]:
  "ok_timers (timers s) \<Longrightarrow> ok_timers (timers (onresult r ev s))"
  by (simp add: onresult_def ok_frame long_text_def trim_trim Let_def
      split: option.splits prod.splits rec_error.splits timer_action.splits callback.splits
        call_kind.splits speech_cb.splits)

lemma silence_fire_ok [ok_frame]:
  "ok_timers (timers s) \<Longrightarrow> ok_timers (timers (silence_fire t s))"
  by (simp add: silence_fire_def ok_frame long_text_def trim_trim Let_def
      split: option.splits prod.splits rec_error.splits timer_action.splits callback.splits
        call_kind.splits speech_cb.splits)

lemma onend_ok [ok_frame]:
  "ok_timers (timers s) \<Longrightarrow> ok_timers (timers (onend r s))"
  by (simp add: onend_def ok_frame long_text_def trim_trim Let_def
      split: option.splits prod.splits rec_error.splits timer_action.splits callback.splits
        call_kind.splits speech_cb.splits)

lemma onerror_ok [ok_frame]:
  "ok_timers (timers s) \<Longrightarrow> ok_timers (timers (onerror r err s))"
  by (simp add: onerror_def ok_frame long_text_def trim_trim Let_def
      split: option.splits prod.splits rec_error.splits timer_action.splits callback.splits
        call_kind.splits speech_cb.splits)

lemma noSpeechRestart_fire_ok [ok_frame]:
  "ok_timers (timers s) \<Longrightarrow> ok_timers (timers (noSpeechRestart_fire s))"
  by (simp add: noSpeechRestart_fire_def ok_frame long_text_def trim_trim Let_def
      split: option.splits prod.splits rec_error.splits timer_action.splits callback.splits
        call_kind.splits speech_cb.splits)

lemma stopListening_ok [ok_frame]:
  "ok_timers (timers s) \<Longrightarrow> ok_timers (timers (stopListening s))"
  by (simp add: stopListening_def ok_frame long_text_def trim_trim Let_def
      split: option.splits prod.splits rec_error.splits timer_action.splits callback.splits
        call_kind.splits speech_cb.splits)

lemma resetTranscript_ok [ok_frame]:
  "ok_timers (timers s) \<Longrightarrow> ok_timers (timers (resetTranscript s))"
  by (simp add: resetTranscript_def ok_frame long_text_def trim_trim Let_def
      split: option.splits prod.splits rec_error.splits timer_action.splits callback.splits
        call_kind.splits speech_cb.splits)

lemma restartListening_ok [ok_frame]:
  "ok_timers (timers s) \<Longrightarrow> ok_timers (timers (restartListening cb s))"
  by (simp add: restartListening_def ok_frame long_text_def trim_trim Let_def
      split: option.splits prod.splits rec_error.splits timer_action.splits callback.splits
        call_kind.splits speech_cb.splits)

lemma restartTimer_fire_ok [ok_frame]:
  "ok_timers (timers s) \<Longrightarrow> ok_timers (timers (restartTimer_fire cb s))"
  by (simp add: restartTimer_fire_def ok_frame long_text_def trim_trim Let_def
      split: option.splits prod.splits rec_error.splits timer_action.splits callback.splits
        call_kind.splits speech_cb.splits)

lemma handleVoiceConversation_ok [ok_frame]:
  "ok_timers (timers s) \<Longrightarrow> ok_timers (timers (handleVoiceConversation t s))"
  by (simp add: handleVoiceConversation_def ok_frame long_text_def trim_trim Let_def
      split: option.splits prod.splits rec_error.splits timer_action.splits callback.splits
        call_kind.splits speech_cb.splits)

lemma voice_response_ok [ok_frame]:
  "ok_timers (timers s) \<Longrightarrow> ok_timers (timers (voice_response d s))"
  by (simp add: voice_response_def ok_frame long_text_def trim_trim Let_def
      split: option.splits prod.splits rec_error.splits timer_action.splits callback.splits
        call_kind.splits speech_cb.splits)

lemma voice_failure_ok [ok_frame]:
  "ok_timers (timers s) \<Longrightarrow> ok_timers (timers (voice_failure err s))"
  by (simp add: voice_failure_def ok_frame long_text_def trim_trim Let_def
      split: option.splits prod.splits rec_error.splits timer_action.splits callback.splits
        call_kind.splits speech_cb.splits)

lemma voiceOnDone_ok [ok_frame]:
  "ok_timers (timers s) \<Longrightarrow> ok_timers (timers (voiceOnDone s))"
  by (simp add: voiceOnDone_def ok_frame long_text_def trim_trim Let_def
      split: option.splits prod.splits rec_error.splits timer_action.splits callback.splits
        call_kind.splits speech_cb.splits)

lemma voiceRestart_fire_ok [ok_frame]:
  "ok_timers (timers s) \<Longrightarrow> ok_timers (timers (voiceRestart_fire s))"
  by (simp add: voiceRestart_fire_def ok_frame long_text_def trim_trim Let_def
      split: option.splits prod.splits rec_error.splits timer_action.splits callback.splits
        call_kind.splits speech_cb.splits)

lemma handleFileChange_ok [ok_frame]:
  "ok_timers (timers s) \<Longrightarrow> ok_timers (timers (handleFileChange f s))"
  by (simp add: handleFileChange_def ok_frame long_text_def trim_trim Let_def
      split: option.splits prod.splits rec_error.splits timer_action.splits callback.splits
        call_kind.splits speech_cb.splits)

lemma clearLocal_ok [ok_frame]:
  "ok_timers (timers s) \<Longrightarrow> ok_timers (timers (clearLocal s))"
  by (simp add: clearLocal_def ok_frame long_text_def trim_trim Let_def
      split: option.splits prod.splits rec_error.splits timer_action.splits callback.splits
        call_kind.splits speech_cb.splits)

lemma handleResetChat_ok [ok_frame]:
  "ok_timers (timers s) \<Longrightarrow> ok_timers (timers (handleResetChat s))"
  by (simp add: handleResetChat_def ok_frame long_text_def trim_trim Let_def
      split: option.splits prod.splits rec_error.splits timer_action.splits callback.splits
        call_kind.splits speech_cb.splits)

lemma reset_response_ok [ok_frame]:
  "ok_timers (timers s) \<Longrightarrow> ok_timers (timers (reset_response s))"
  by (simp add: reset_response_def ok_frame long_text_def trim_trim Let_def
      split: option.splits prod.splits rec_error.splits timer_action.splits callback.splits
        call_kind.splits speech_cb.splits)

lemma reset_failure_ok [ok_frame]:
  "ok_timers (timers s) \<Longrightarrow> ok_timers (timers (reset_failure err s))"
  by (simp add: reset_failure_def ok_frame long_text_def trim_trim Let_def
      split: option.splits prod.splits rec_error.splits timer_action.splits callback.splits
        call_kind.splits speech_cb.splits)

lemma handleSendMessage_ok [ok_frame]:
  "ok_timers (timers s) \<Longrightarrow> ok_timers (timers (handleSendMessage s))"
  by (simp add: handleSendMessage_def ok_frame long_text_def trim_trim Let_def
      split: option.splits prod.splits rec_error.splits timer_action.splits callback.splits
        call_kind.splits speech_cb.splits)

lemma send_response_ok [ok_frame]:
  "ok_timers (timers s) \<Longrightarrow> ok_timers (timers (send_response a d s))"
  by (simp add: send_response_def ok_frame long_text_def trim_trim Let_def
      split: option.splits prod.splits rec_error.splits timer_action.splits callback.splits
        call_kind.splits speech_cb.splits)

lemma send_failure_ok [ok_frame]:
  "ok_timers (timers s) \<Longrightarrow> ok_timers (timers (send_failure err s))"
  by (simp add: send_failure_def ok_frame long_text_def trim_trim Let_def
      split: option.splits prod.splits rec_error.splits timer_action.splits callback.splits
        call_kind.splits speech_cb.splits)

lemma handleVoiceToggle_ok [ok_frame]:
  "ok_timers (timers s) \<Longrightarrow> ok_timers (timers (handleVoiceToggle s))"
  by (simp add: handleVoiceToggle_def ok_frame long_text_def trim_trim Let_def
      split: option.splits prod.splits rec_error.splits timer_action.splits callback.splits
        call_kind.splits speech_cb.splits)

lemma handleSpeakMessage_ok [ok_frame]:
  "ok_timers (timers s) \<Longrightarrow> ok_timers (timers (handleSpeakMessage m s))"
  by (simp add: handleSpeakMessage_def ok_frame long_text_def trim_trim Let_def
      split: option.splits prod.splits rec_error.splits timer_action.splits callback.splits
        call_kind.splits speech_cb.splits)

lemma handleManualVoiceInput_ok [ok_frame]:
  "ok_timers (timers s) \<Longrightarrow> ok_timers (timers (handleManualVoiceInput s))"
  by (simp add: handleManualVoiceInput_def ok_frame long_text_def trim_trim Let_def
      split: option.splits prod.splits rec_error.splits timer_action.splits callback.splits
        call_kind.splits speech_cb.splits)

lemma fire_ok [ok_frame]:
  "ok_timers (timers s) \<Longrightarrow> ok_timers (timers (fire a s))"
  by (simp add: fire_def ok_frame long_text_def trim_trim Let_def
      split: option.splits prod.splits rec_error.splits timer_action.splits callback.splits
        call_kind.splits speech_cb.splits)

lemma timerFire_ok [ok_frame]:
  "ok_timers (timers s) \<Longrightarrow> ok_timers (timers (timerFire i s))"
  by (simp add: timerFire_def ok_frame long_text_def trim_trim Let_def
      split: option.splits prod.splits rec_error.splits timer_action.splits callback.splits
        call_kind.splits speech_cb.splits)

lemma permissionAnswer_ok [ok_frame]:
  "ok_timers (timers s) \<Longrightarrow> ok_timers (timers (permissionAnswer i p ok s))"
  by (simp add: permissionAnswer_def ok_frame long_text_def trim_trim Let_def
      split: option.splits prod.splits rec_error.splits timer_action.splits callback.splits
        call_kind.splits speech_cb.splits)

lemma settle_ok [ok_frame]:
  "ok_timers (timers s) \<Longrightarrow> ok_timers (timers (settle k s))"
  by (simp add: settle_def ok_frame long_text_def trim_trim Let_def
      split: option.splits prod.splits rec_error.splits timer_action.splits callback.splits
        call_kind.splits speech_cb.splits)

lemma callReturns_ok [ok_frame]:
  "ok_timers (timers s) \<Longrightarrow> ok_timers (timers (callReturns k d s))"
  by (simp add: callReturns_def ok_frame long_text_def trim_trim Let_def
      split: option.splits prod.splits rec_error.splits timer_action.splits callback.splits
        call_kind.splits speech_cb.splits)

lemma callFails_ok [ok_frame]:
  "ok_timers (timers s) \<Longrightarrow> ok_timers (timers (callFails k err s))"
  by (simp add: callFails_def ok_frame long_text_def trim_trim Let_def
      split: option.splits prod.splits rec_error.splits timer_action.splits callback.splits
        call_kind.splits speech_cb.splits)

lemma speechDone_ok [ok_frame]:
  "ok_timers (timers s) \<Longrightarrow> ok_timers (timers (speechDone s))"
  by (simp add: speechDone_def ok_frame long_text_def trim_trim Let_def
      split: option.splits prod.splits rec_error.splits timer_action.splits callback.splits
        call_kind.splits speech_cb.splits)

lemma handle_ok: "ok_timers (timers s) \<Longrightarrow> ok_timers (timers (handle e s))"
  by (cases e; simp add: handle_def ok_frame)

lemma effect_timers:
  "timers (useCallback_startListening s) = timers s"
  "timers (effect_voiceRef s) = timers s"
  "timers (effect_userSpeech s) = timers s"
  "timers (effect_manualMic s) = timers s"
  by (simp_all add: useCallback_startListening_def effect_voiceRef_def effect_userSpeech_def
      effect_manualMic_def resetTranscript_def Let_def)

lemma render_timers: "timers (render s) = timers s"
  by (simp only: render_def commit_def effect_timers)

lemma step_ok: "ok_timers (timers s) \<Longrightarrow> ok_timers (timers (step e s))"
  by (simp add: step_def render_timers handle_ok)

lemma run_ok: "ok_timers (timers s) \<Longrightarrow> ok_timers (timers (run es s))"
  by (induction es arbitrary: s) (simp_all add: step_ok)

text \<open>Apart from the three handlers that send, no function sends a request.\<close>

named_theorems quiet_frame

lemma setTimeout_quiet [quiet_frame]: "requests (setTimeout d a s) = requests s"
  by (simp add: setTimeout_def)

lemma schedule_silence_quiet [quiet_frame]: "requests (schedule_silence d t s) = requests s"
  by (simp add: schedule_silence_def clearTimeout_def quiet_frame Let_def split: option.splits)

lemma clearTimeout_quiet [quiet_frame]: "requests (clearTimeout i s) = requests s"
  by (simp add: clearTimeout_def quiet_frame Let_def
      split: option.splits prod.splits rec_error.splits timer_action.splits callback.splits
        call_kind.splits speech_cb.splits)

lemma speak_quiet [quiet_frame]: "requests (speak t onDone s) = requests s"
  by (simp add: speak_def quiet_frame Let_def
      split: option.splits prod.splits rec_error.splits timer_action.splits callback.splits
        call_kind.splits speech_cb.splits)

lemma stopSpeaking_quiet [quiet_frame]: "requests (stopSpeaking s) = requests s"
  by (simp add: stopSpeaking_def quiet_frame Let_def
      split: option.splits prod.splits rec_error.splits timer_action.splits callback.splits
        call_kind.splits speech_cb.splits)

lemma rec_set_status_quiet [quiet_frame]: "requests (rec_set_status r st s) = requests s"
  by (simp add: rec_set_status_def quiet_frame Let_def
      split: option.splits prod.splits rec_error.splits timer_action.splits callback.splits
        call_kind.splits speech_cb.splits)

lemma rec_stop_quiet [quiet_frame]: "requests (rec_stop r s) = requests s"
  by (simp add: rec_stop_def quiet_frame Let_def
      split: option.splits prod.splits rec_error.splits timer_action.splits callback.splits
        call_kind.splits speech_cb.splits)

lemma rec_abort_quiet [quiet_frame]: "requests (rec_abort r s) = requests s"
  by (simp add: rec_abort_def quiet_frame Let_def
      split: option.splits prod.splits rec_error.splits timer_action.splits callback.splits
        call_kind.splits speech_cb.splits)

lemma cleanup_quiet [quiet_frame]: "requests (cleanup s) = requests s"
  by (simp add: cleanup_def quiet_frame Let_def
      split: option.splits prod.splits rec_error.splits timer_action.splits callback.splits
        call_kind.splits speech_cb.splits)

lemma processVoiceResult_quiet [quiet_frame]: "requests (processVoiceResult t s) = requests s"
  by (simp add: processVoiceResult_def quiet_frame Let_def
      split: option.splits prod.splits rec_error.splits timer_action.splits callback.splits
        call_kind.splits speech_cb.splits)

lemma startListening_quiet [quiet_frame]: "requests (startListening cb s) = requests s"
  by (simp add: startListening_def quiet_frame Let_def
      split: option.splits prod.splits rec_error.splits timer_action.splits callback.splits
        call_kind.splits speech_cb.splits)

lemma startListening_resume_quiet [quiet_frame]: "requests (startListening_resume cb p ok s) = requests s"
  by (simp add: startListening_resume_def quiet_frame Let_def
      split: option.splits prod.splits rec_error.splits timer_action.splits callback.splits
        call_kind.splits speech_cb.splits)

lemma set_autoStopTimeout_quiet [quiet_frame]: "requests (set_autoStopTimeout r v s) = requests s"
  by (simp add: set_autoStopTimeout_def quiet_frame Let_def
      split: option.splits prod.splits rec_error.splits timer_action.splits callback.splits
        call_kind.splits speech_cb.splits)

lemma clear_autoStopTimeout_quiet [quiet_frame]: "requests (clear_autoStopTimeout r s) = requests s"
  by (simp add: clear_autoStopTimeout_def quiet_frame Let_def
      split: option.splits prod.splits rec_error.splits timer_action.splits callback.splits
        call_kind.splits speech_cb.splits)

lemma onstart_quiet [quiet_frame]: "requests (onstart r s) = requests s"
  by (simp add: onstart_def quiet_frame Let_def
      split: option.splits prod.splits rec_error.splits timer_action.splits callback.splits
        call_kind.splits speech_cb.splits)

lemma autoStop_fire_quiet [quiet_frame]: "requests (autoStop_fire r s) = requests s"
  by (simp add: autoStop_fire_def quiet_frame Let_def
      split: option.splits prod.splits rec_error.splits timer_action.splits callback.splits
        call_kind.splits speech_cb.splits)

lemma onresult_quiet [quiet_frame]: "requests (onresult r ev s) = requests s"
  by (simp add: onresult_def quiet_frame Let_def
      split: option.splits prod.splits rec_error.splits timer_action.splits callback.splits
        call_kind.splits speech_cb.splits)

lemma silence_fire_quiet [quiet_frame]: "requests (silence_fire t s) = requests s"
  by (simp add: silence_fire_def quiet_frame Let_def
      split: option.splits prod.splits rec_error.splits timer_action.splits callback.splits
        call_kind.splits speech_cb.splits)

lemma onend_quiet [quiet_frame]: "requests (onend r s) = requests s"
  by (simp add: onend_def quiet_frame Let_def
      split: option.splits prod.splits rec_error.splits timer_action.splits callback.splits
        call_kind.splits speech_cb.splits)

lemma onerror_quiet [quiet_frame]: "requests (onerror r err s) = requests s"
  by (simp add: onerror_def quiet_frame Let_def
      split: option.splits prod.splits rec_error.splits timer_action.splits callback.splits
        call_kind.splits speech_cb.splits)

lemma noSpeechRestart_fire_quiet [quiet_frame]: "requests (noSpeechRestart_fire s) = requests s"
  by (simp add: noSpeechRestart_fire_def quiet_frame Let_def
      split: option.splits prod.splits rec_error.splits timer_action.splits callback.splits
        call_kind.splits speech_cb.splits)

lemma stopListening_quiet [quiet_frame]: "requests (stopListening s) = requests s"
  by (simp add: stopListening_def quiet_frame Let_def
      split: option.splits prod.splits rec_error.splits timer_action.splits callback.splits
        call_kind.splits speech_cb.splits)

lemma resetTranscript_quiet [quiet_frame]: "requests (resetTranscript s) = requests s"
  by (simp add: resetTranscript_def quiet_frame Let_def
      split: option.splits prod.splits rec_error.splits timer_action.splits callback.splits
        call_kind.splits speech_cb.splits)

lemma restartListening_quiet [quiet_frame]: "requests (restartListening cb s) = requests s"
  by (simp add: restartListening_def quiet_frame Let_def
      split: option.splits prod.splits rec_error.splits timer_action.splits callback.splits
        call_kind.splits speech_cb.splits)

lemma restartTimer_fire_quiet [quiet_frame]: "requests (restartTimer_fire cb s) = requests s"
  by (simp add: restartTimer_fire_def quiet_frame Let_def
      split: option.splits prod.splits rec_error.splits timer_action.splits callback.splits
        call_kind.splits speech_cb.splits)

lemma voice_response_quiet [quiet_frame]: "requests (voice_response d s) = requests s"
  by (simp add: voice_response_def quiet_frame Let_def
      split: option.splits prod.splits rec_error.splits timer_action.splits callback.splits
        call_kind.splits speech_cb.splits)

lemma voice_failure_quiet [quiet_frame]: "requests (voice_failure err s) = requests s"
  by (simp add: voice_failure_def quiet_frame Let_def
      split: option.splits prod.splits rec_error.splits timer_action.splits callback.splits
        call_kind.splits speech_cb.splits)

lemma voiceOnDone_quiet [quiet_frame]: "requests (voiceOnDone s) = requests s"
  by (simp add: voiceOnDone_def quiet_frame Let_def
      split: option.splits prod.splits rec_error.splits timer_action.splits callback.splits
        call_kind.splits speech_cb.splits)

lemma voiceRestart_fire_quiet [quiet_frame]: "requests (voiceRestart_fire s) = requests s"
  by (simp add: voiceRestart_fire_def quiet_frame Let_def
      split: option.splits prod.splits rec_error.splits timer_action.splits callback.splits
        call_kind.splits speech_cb.splits)

lemma handleFileChange_quiet [quiet_frame]: "requests (handleFileChange f s) = requests s"
  by (simp add: handleFileChange_def quiet_frame Let_def
      split: option.splits prod.splits rec_error.splits timer_action.splits callback.splits
        call_kind.splits speech_cb.splits)

lemma clearLocal_quiet [quiet_frame]: "requests (clearLocal s) = requests s"
  by (simp add: clearLocal_def quiet_frame Let_def
      split: option.splits prod.splits rec_error.splits timer_action.splits callback.splits
        call_kind.splits speech_cb.splits)

lemma reset_response_quiet [quiet_frame]: "requests (reset_response s) = requests s"
  by (simp add: reset_response_def quiet_frame Let_def
      split: option.splits prod.splits rec_error.splits timer_action.splits callback.splits
        call_kind.splits speech_cb.splits)

lemma reset_failure_quiet [quiet_frame]: "requests (reset_failure err s) = requests s"
  by (simp add: reset_failure_def quiet_frame Let_def
      split: option.splits prod.splits rec_error.splits timer_action.splits callback.splits
        call_kind.splits speech_cb.splits)

lemma send_response_quiet [quiet_frame]: "requests (send_response a d s) = requests s"
  by (simp add: send_response_def quiet_frame Let_def
      split: option.splits prod.splits rec_error.splits timer_action.splits callback.splits
        call_kind.splits speech_cb.splits)

lemma send_failure_quiet [quiet_frame]: "requests (send_failure err s) = requests s"
  by (simp add: send_failure_def quiet_frame Let_def
      split: option.splits prod.splits rec_error.splits timer_action.splits callback.splits
        call_kind.splits speech_cb.splits)

lemma handleVoiceToggle_quiet [quiet_frame]: "requests (handleVoiceToggle s) = requests s"
  by (simp add: handleVoiceToggle_def quiet_frame Let_def
      split: option.splits prod.splits rec_error.splits timer_action.splits callback.splits
        call_kind.splits speech_cb.splits)

lemma handleSpeakMessage_quiet [quiet_frame]: "requests (handleSpeakMessage m s) = requests s"
  by (simp add: handleSpeakMessage_def quiet_frame Let_def
      split: option.splits prod.splits rec_error.splits timer_action.splits callback.splits
        call_kind.splits speech_cb.splits)

lemma handleManualVoiceInput_quiet [quiet_frame]: "requests (handleManualVoiceInput s) = requests s"
  by (simp add: handleManualVoiceInput_def quiet_frame Let_def
      split: option.splits prod.splits rec_error.splits timer_action.splits callback.splits
        call_kind.splits speech_cb.splits)

lemma permissionAnswer_quiet [quiet_frame]: "requests (permissionAnswer i p ok s) = requests s"
  by (simp add: permissionAnswer_def quiet_frame Let_def
      split: option.splits prod.splits rec_error.splits timer_action.splits callback.splits
        call_kind.splits speech_cb.splits)

lemma settle_quiet [quiet_frame]: "requests (settle k s) = requests s"
  by (simp add: settle_def quiet_frame Let_def
      split: option.splits prod.splits rec_error.splits timer_action.splits callback.splits
        call_kind.splits speech_cb.splits)

lemma callReturns_quiet [quiet_frame]: "requests (callReturns k d s) = requests s"
  by (simp add: callReturns_def quiet_frame Let_def
      split: option.splits prod.splits rec_error.splits timer_action.splits callback.splits
        call_kind.splits speech_cb.splits)

lemma callFails_quiet [quiet_frame]: "requests (callFails k err s) = requests s"
  by (simp add: callFails_def quiet_frame Let_def
      split: option.splits prod.splits rec_error.splits timer_action.splits callback.splits
        call_kind.splits speech_cb.splits)

lemma speechDone_quiet [quiet_frame]: "requests (speechDone s) = requests s"
  by (simp add: speechDone_def quiet_frame Let_def
      split: option.splits prod.splits rec_error.splits timer_action.splits callback.splits
        call_kind.splits speech_cb.splits)

lemma init_ok: "ok_timers (timers (init m r y))"
  by (simp add: init_def ok_timers_def)

text \<open>What the handlers that can send a voice request send.\<close>

lemma handleVoiceConversation_sends:
  "requests (handleVoiceConversation t s) =
     (if \<not> isProcessingVoiceRef s \<and> 2 \<le> length (trim t)
      then requests s @
             [\<lparr>q_message = t, q_mode = chat, q_sessionId = session, q_attachments = None,
               q_reset = None\<rparr>]
      else requests s)"
  by (auto simp add: handleVoiceConversation_def sendChatMessage_def stopSpeaking_def
      resetTranscript_def restartListening_quiet Let_def)

lemma fire_sends:
  "list_all (\<lambda>q. 2 \<le> length (trim (q_message q)))
     (drop (length (requests u)) (requests (fire a u)))"
  by (cases a) (simp_all add: fire_def quiet_frame handleVoiceConversation_sends
      split: callback.splits)

lemma timerFire_sends:
  "list_all (\<lambda>q. 2 \<le> length (trim (q_message q)))
     (drop (length (requests s)) (requests (timerFire i s)))"
proof (cases "map_of (timers s) i")
  case None
  then show ?thesis by (simp add: timerFire_def)
next
  case (Some tm)
  have "requests (clearTimeout i s) = requests s"
    by (simp add: quiet_frame)
  with fire_sends [of "clearTimeout i s" "t_action tm"] Some show ?thesis
    by (simp add: timerFire_def)
qed

lemma handle_sends:
  assumes "e \<noteq> SendClick" "e \<noteq> ResetClick"
  shows "list_all (\<lambda>q. 2 \<le> length (trim (q_message q)))
           (drop (length (requests s)) (requests (handle e s)))"
  using assms timerFire_sends [of s]
  by (cases e) (simp_all add: handle_def quiet_frame)

lemma step_sends:
  assumes "e \<noteq> SendClick" "e \<noteq> ResetClick"
  shows "list_all (\<lambda>q. 2 \<le> length (trim (q_message q))) (sent e s)"
  using handle_sends [OF assms, of s]
  by (simp add: sent_def step_def render_frame)

text \<open>
  The filter that acts in a run: \<open>onresult\<close> appends each final segment to
  \<open>finalTranscriptRef\<close> and tests the length of the accumulated text.
\<close>

lemma clear_autoStopTimeout_fields:
  "finalTranscriptRef (clear_autoStopTimeout r s) = finalTranscriptRef s"
  "isVoiceModeRef (clear_autoStopTimeout r s) = isVoiceModeRef s"
  "isProcessingRef (clear_autoStopTimeout r s) = isProcessingRef s"
  "isMobile (clear_autoStopTimeout r s) = isMobile s"
  by (simp_all add: clear_autoStopTimeout_def set_autoStopTimeout_def clearTimeout_def
      split: option.splits)

lemma onresult_one_final:
  assumes "trim t \<noteq> []"
  shows "finalTranscriptRef
           (onresult r \<lparr>results = [\<lparr>transcript0 = t, isFinal = True\<rparr>], resultIndex = 0\<rparr> s) =
         finalTranscriptRef s @ trim t"
    and "length (trim (finalTranscriptRef s @ trim t)) < 2 \<Longrightarrow>
         timers (onresult r \<lparr>results = [\<lparr>transcript0 = t, isFinal = True\<rparr>], resultIndex = 0\<rparr> s) =
         timers (clear_autoStopTimeout r s)"
    and "2 \<le> length (trim (finalTranscriptRef s @ trim t)) \<Longrightarrow> isVoiceModeRef s \<Longrightarrow>
         \<not> isProcessingRef s \<Longrightarrow>
         snd (last (timers
           (onresult r \<lparr>results = [\<lparr>transcript0 = t, isFinal = True\<rparr>], resultIndex = 0\<rparr> s))) =
         \<lparr>t_delay = (if isMobile s then 500 else 300),
          t_action = SilenceTimer (trim (finalTranscriptRef s @ trim t))\<rparr>"
  using assms
  by (auto simp add: onresult_def schedule_silence_def setTimeout_def clearTimeout_def
      clear_autoStopTimeout_fields Let_def split: option.splits)

lemma short_text_guards:
  assumes "length (trim t) < 2"
  shows "processVoiceResult t s = s"
    and "silence_fire t s = s"
    and "requests (handleVoiceConversation t s) = requests s"
    and "pendingCalls (handleVoiceConversation t s) = pendingCalls s"
    and "messages (handleVoiceConversation t s) = messages s"
proof -
  show hook: "processVoiceResult t s = s"
    using assms by (simp add: processVoiceResult_def Let_def)
  then show "silence_fire t s = s"
    by (simp add: silence_fire_def)
  have handler: "handleVoiceConversation t s =
      (if \<not> isProcessingVoiceRef s \<and> voiceModeRef s
       then restartListening HandleVoiceConversation s else s)"
    using assms by (simp add: handleVoiceConversation_def)
  show "requests (handleVoiceConversation t s) = requests s"
    "pendingCalls (handleVoiceConversation t s) = pendingCalls s"
    "messages (handleVoiceConversation t s) = messages s"
    by (simp_all add: handler restartListening_frame)
qed




section \<open>The manual microphone\<close>

lemma useCallback_input:
  "transcript (useCallback_startListening s) = transcript s"
  "isListening (useCallback_startListening s) = isListening s"
  "input (useCallback_startListening s) = input s"
  "deps_manualMic (useCallback_startListening s) = deps_manualMic s"
  by (simp_all add: useCallback_startListening_def)

lemma effect_voiceRef_input:
  "transcript (effect_voiceRef s) = transcript s"
  "isListening (effect_voiceRef s) = isListening s"
  "input (effect_voiceRef s) = input s"
  "deps_manualMic (effect_voiceRef s) = deps_manualMic s"
  by (simp_all add: effect_voiceRef_def)

lemma effect_userSpeech_input:
  "transcript (effect_userSpeech s) = transcript s"
  "isListening (effect_userSpeech s) = isListening s"
  "input (effect_userSpeech s) = input s"
  "deps_manualMic (effect_userSpeech s) = deps_manualMic s"
  by (simp_all add: effect_userSpeech_def Let_def)

text \<open>The effect when it has something to write, and when the transcript is empty.\<close>

lemma effect_manualMic_writes:
  assumes "transcript s \<noteq> []" "\<not> isVoiceMode s" "\<not> isListening s"
    and "deps_manualMic s \<noteq> Some (transcript s, False, False)"
  shows "input (effect_manualMic s) = input s @ transcript s"
    and "transcript (effect_manualMic s) = []"
    and "\<not> isListening (effect_manualMic s)"
  using assms by (simp_all add: effect_manualMic_def resetTranscript_def Let_def)

lemma effect_manualMic_idle:
  assumes "transcript s = []"
  shows "input (effect_manualMic s) = input s"
    and "transcript (effect_manualMic s) = []"
    and "isListening (effect_manualMic s) = isListening s"
  using assms by (simp_all add: effect_manualMic_def Let_def)

lemma commit_writes:
  assumes "transcript s \<noteq> []" "\<not> isVoiceMode s" "\<not> isListening s"
    and "deps_manualMic s \<noteq> Some (transcript s, False, False)"
  shows "input (commit s) = input s @ transcript s"
    and "transcript (commit s) = []"
    and "\<not> isListening (commit s)"
proof -
  let ?u = "effect_userSpeech (effect_voiceRef (useCallback_startListening s))"
  have u: "transcript ?u = transcript s" "isListening ?u = isListening s"
    "input ?u = input s" "deps_manualMic ?u = deps_manualMic s" "isVoiceMode ?u = isVoiceMode s"
    by (simp_all only: useCallback_input effect_voiceRef_input effect_userSpeech_input
        useCallback_frame effect_voiceRef_frame effect_userSpeech_frame)
  have pre: "transcript ?u \<noteq> []" "\<not> isVoiceMode ?u" "\<not> isListening ?u"
    "deps_manualMic ?u \<noteq> Some (transcript ?u, False, False)"
    using assms by (simp_all only: u not_False_eq_True)
  show "input (commit s) = input s @ transcript s"
    using effect_manualMic_writes(1) [OF pre] by (simp only: commit_def u)
  show "transcript (commit s) = []"
    using effect_manualMic_writes(2) [OF pre] by (simp only: commit_def)
  show "\<not> isListening (commit s)"
    using effect_manualMic_writes(3) [OF pre] by (simp add: commit_def)
qed

lemma commit_idle:
  assumes "transcript s = []"
  shows "input (commit s) = input s"
    and "transcript (commit s) = []"
    and "isListening (commit s) = isListening s"
proof -
  let ?u = "effect_userSpeech (effect_voiceRef (useCallback_startListening s))"
  have u: "transcript ?u = transcript s" "isListening ?u = isListening s" "input ?u = input s"
    by (simp_all only: useCallback_input effect_voiceRef_input effect_userSpeech_input)
  have pre: "transcript ?u = []"
    using assms by (simp only: u)
  show "input (commit s) = input s"
    using effect_manualMic_idle(1) [OF pre] by (simp only: commit_def u)
  show "transcript (commit s) = []"
    using effect_manualMic_idle(2) [OF pre] by (simp only: commit_def)
  show "isListening (commit s) = isListening s"
    using effect_manualMic_idle(3) [OF pre] by (simp only: commit_def u)
qed

lemma render_writes:
  assumes "transcript s \<noteq> []" "\<not> isVoiceMode s" "\<not> isListening s"
    and "deps_manualMic s \<noteq> Some (transcript s, False, False)"
  shows "input (render s) = input s @ transcript s \<and> transcript (render s) = [] \<and>
         \<not> isListening (render s)"
  using commit_writes [OF assms] commit_idle [of "commit s"]
  by (simp add: render_def)

text \<open>What \<open>onend\<close> and \<open>stopListening\<close> leave for the effect.\<close>

lemma onend_fields:
  "\<not> isListening (onend r s)"
  "isVoiceMode (onend r s) = isVoiceMode s"
  "input (onend r s) = input s"
  "deps_manualMic (onend r s) = deps_manualMic s"
  "transcript (onend r s) =
     (if \<not> isVoiceModeRef s \<and> finalTranscriptRef s \<noteq> [] then finalTranscriptRef s
      else transcript s)"
  by (simp_all add: onend_def clear_autoStopTimeout_def set_autoStopTimeout_def
      autoStopTimeout_def clearTimeout_def setTimeout_def Let_def split: option.splits)

lemma rec_set_status_fields:
  "isListening (rec_set_status r st s) = isListening s"
  "isVoiceMode (rec_set_status r st s) = isVoiceMode s"
  "isVoiceModeRef (rec_set_status r st s) = isVoiceModeRef s"
  "input (rec_set_status r st s) = input s"
  "deps_manualMic (rec_set_status r st s) = deps_manualMic s"
  "transcript (rec_set_status r st s) = transcript s"
  "finalTranscriptRef (rec_set_status r st s) = finalTranscriptRef s"
  by (simp_all add: rec_set_status_def)

lemma stopListening_fields:
  "\<not> isListening (stopListening s)"
  "isVoiceMode (stopListening s) = isVoiceMode s"
  "input (stopListening s) = input s"
  "deps_manualMic (stopListening s) = deps_manualMic s"
  "transcript (stopListening s) = transcript s"
  by (simp_all add: stopListening_def cleanup_def clearTimeout_def rec_abort_def
      rec_set_status_def Let_def split: option.splits)

text \<open>
  C9. In manual microphone mode (voice mode off, the hook's voice flag off), on a page
  that has rendered while listening: when the recognizer ends, or when the microphone
  button stops it, with a non-empty transcript, the next render appends that transcript
  to the text of the input field, which keeps what was typed, and empties the
  transcript. At the recognizer's end the transcript is the final text when there is
  any, and the text shown so far otherwise.
\<close>

theorem manual_transcript_appended:
  assumes "isListening s" "\<not> isVoiceMode s" "\<not> isVoiceModeRef s"
    and rendered: "deps_manualMic s = Some (transcript s, isVoiceMode s, isListening s)"
  shows "(rec_status r s \<noteq> Ended \<and>
          (if finalTranscriptRef s \<noteq> [] then finalTranscriptRef s else transcript s) \<noteq> [] \<longrightarrow>
            input (step (RecEnd r) s) =
              input s @ (if finalTranscriptRef s \<noteq> [] then finalTranscriptRef s else transcript s) \<and>
            transcript (step (RecEnd r) s) = [] \<and>
            \<not> isListening (step (RecEnd r) s)) \<and>
         (isSupported s \<and> \<not> isLoading s \<and> transcript s \<noteq> [] \<longrightarrow>
            input (step ManualMicClick s) = input s @ transcript s \<and>
            transcript (step ManualMicClick s) = [] \<and>
            \<not> isListening (step ManualMicClick s))"
proof -
  let ?T = "if finalTranscriptRef s \<noteq> [] then finalTranscriptRef s else transcript s"
  let ?u = "onend r (rec_set_status r Ended s)"
  have ended: "input (step (RecEnd r) s) = input s @ ?T \<and>
               transcript (step (RecEnd r) s) = [] \<and> \<not> isListening (step (RecEnd r) s)"
    if live: "rec_status r s \<noteq> Ended" and some: "?T \<noteq> []"
  proof -
    have st: "step (RecEnd r) s = render ?u"
      using live by (simp add: step_def enabled_def handle_def)
    have t: "transcript ?u = ?T"
      using assms by (simp add: onend_fields rec_set_status_fields)
    have pre: "transcript ?u \<noteq> []" "\<not> isVoiceMode ?u" "\<not> isListening ?u"
      "deps_manualMic ?u \<noteq> Some (transcript ?u, False, False)"
      using assms some by (simp_all add: onend_fields rec_set_status_fields split: if_splits)
    from render_writes [OF pre] assms(3) show ?thesis
      by (simp add: st onend_fields rec_set_status_fields)
  qed
  let ?v = "stopListening s"
  have stopped: "input (step ManualMicClick s) = input s @ transcript s \<and>
                 transcript (step ManualMicClick s) = [] \<and> \<not> isListening (step ManualMicClick s)"
    if able: "isSupported s" "\<not> isLoading s" and some: "transcript s \<noteq> []"
  proof -
    have st: "step ManualMicClick s = render ?v"
      using assms able by (simp add: step_def enabled_def handle_def handleManualVoiceInput_def)
    have pre: "transcript ?v \<noteq> []" "\<not> isVoiceMode ?v" "\<not> isListening ?v"
      "deps_manualMic ?v \<noteq> Some (transcript ?v, False, False)"
      using assms some by (simp_all add: stopListening_fields)
    from render_writes [OF pre] show ?thesis
      by (simp add: st stopListening_fields)
  qed
  from ended stopped show ?thesis by blast
qed

theorem manual_transcript_appended_witness:
  "input dictating = hi \<and> transcript dictating = ascii ''merhaba'' \<and>
   input (step (RecEnd 0) dictating) = hi @ ascii ''merhaba'' \<and>
   transcript (step (RecEnd 0) dictating) = [] \<and>
   input (step ManualMicClick dictating) = hi @ ascii ''merhaba'' \<and>
   transcript (step ManualMicClick dictating) = []"
proof -
  have "observe (\<lambda>s. (isListening s, isVoiceMode s, isVoiceModeRef s, deps_manualMic s,
                     rec_status 0 s, isSupported s, isLoading s, input s, transcript s,
                     finalTranscriptRef s)) dictating =
        (True, False, False, Some (ascii ''merhaba'', False, True), Running, True, False,
         hi, ascii ''merhaba'', ascii ''merhaba'')"
    by code_simp
  then have pre: "isListening dictating" "\<not> isVoiceMode dictating" "\<not> isVoiceModeRef dictating"
    "deps_manualMic dictating =
       Some (transcript dictating, isVoiceMode dictating, isListening dictating)"
    and live: "rec_status 0 dictating \<noteq> Ended" "isSupported dictating" "\<not> isLoading dictating"
    and vals: "input dictating = hi" "transcript dictating = ascii ''merhaba''"
    "finalTranscriptRef dictating = ascii ''merhaba''"
    by (simp_all add: observe_def)
  have some: "ascii ''merhaba'' \<noteq> []"
    by (simp add: ascii_def)
  from manual_transcript_appended [OF pre, of 0] live vals some
  show ?thesis by simp
qed

section \<open>The voice turn: how listening resumes\<close>

text \<open>
  The callback of the timers of \<open>handleVoiceConversation\<close> calls \<open>restartListening\<close>,
  which starts nothing itself: it releases the hook's guard and sets a timer of 1500 ms,
  whose callback calls \<open>startListening\<close>.
\<close>

lemma voiceRestart_calls_restartListening:
  "fire VoiceRestart v =
     (if voiceModeRef v \<and> \<not> isProcessingVoiceRef v
      then restartListening HandleVoiceConversation v else v)"
  by (simp add: fire_def voiceRestart_fire_def)

lemma restartListening_schedules:
  "last (timers (restartListening cb v)) = (nextTimer v, \<lparr>t_delay = 1500, t_action = RestartTimer cb\<rparr>)"
  "recognizers (restartListening cb v) = recognizers v"
  "recognitionRef (restartListening cb v) = recognitionRef v"
  "isListening (restartListening cb v) = isListening v"
  "pendingStarts (restartListening cb v) = pendingStarts v"
  "spoken (restartListening cb v) = spoken v"
  "\<not> isProcessingRef (restartListening cb v)"
  by (simp_all add: restartListening_def clearTimeout_def setTimeout_def Let_def
      split: option.splits)

lemma restartTimer_calls_startListening:
  "fire (RestartTimer cb) w = (if isVoiceModeRef w then startListening (Some cb) w else w)"
  by (simp add: fire_def restartTimer_fire_def)

lemma startListening_queues:
  "closure_isSupported w \<Longrightarrow>
     pendingStarts (startListening cb w) = pendingStarts w @ [(nextStart w, cb)]"
  "spoken (startListening cb w) = spoken w"
  by (simp_all add: startListening_def)

lemma cleanup_fields:
  "length (recognizers (cleanup x)) = length (recognizers x)"
  "hasSpeechRecognition (cleanup x) = hasSpeechRecognition x"
  "spoken (cleanup x) = spoken x"
  by (simp_all add: cleanup_def clearTimeout_def rec_abort_def rec_set_status_def Let_def
      split: option.splits)

lemma permission_granted_starts:
  assumes "map_of (pendingStarts x) j = Some (Some cb)" "hasSpeechRecognition x"
  shows "recognitionRef (permissionAnswer j True True x) = Some (length (recognizers x))"
    and "rec_status (length (recognizers x)) (permissionAnswer j True True x) = Requested"
    and "isVoiceModeRef (permissionAnswer j True True x)"
    and "spoken (permissionAnswer j True True x) = spoken x"
proof -
  let ?x = "x\<lparr>pendingStarts := filter (\<lambda>p. fst p \<noteq> j) (pendingStarts x)\<rparr>"
  have len: "length (recognizers (cleanup ?x)) = length (recognizers x)"
    by (simp add: cleanup_fields)
  have api: "hasSpeechRecognition (cleanup ?x)"
    using assms(2) by (simp add: cleanup_fields)
  have eq: "permissionAnswer j True True x = startListening_resume (Some cb) True True ?x"
    using assms(1) by (simp add: permissionAnswer_def)
  show "recognitionRef (permissionAnswer j True True x) = Some (length (recognizers x))"
    using assms(2) len by (simp add: eq startListening_resume_def Let_def)
  show "rec_status (length (recognizers x)) (permissionAnswer j True True x) = Requested"
    using assms(2) len by (simp add: eq startListening_resume_def Let_def rec_status_def nth_append)
  show "isVoiceModeRef (permissionAnswer j True True x)"
    using assms(2) by (simp add: eq startListening_resume_def Let_def)
  show "spoken (permissionAnswer j True True x) = spoken x"
    using assms(2) by (simp add: eq startListening_resume_def Let_def cleanup_fields)
qed

lemma onstart_listens:
  "isListening (onstart r y)"
  "spoken (onstart r y) = spoken y"
  by (simp_all add: onstart_def set_autoStopTimeout_def setTimeout_def Let_def)

text \<open>What the answer and the failure of a voice call do, and the end of the playback.\<close>

lemma voice_answer_spoken:
  assumes "map_of (pendingCalls s) k = Some VoiceCall" "d_textResponse d \<noteq> []" "voiceModeRef s"
  shows "spoken (callReturns k d s) = spoken s @ [d_textResponse d]"
    and "utterance (callReturns k d s) = Some (d_textResponse d, Some VoiceOnDone)"
    and "isProcessingVoiceRef (callReturns k d s) = isProcessingVoiceRef s"
    and "timers (callReturns k d s) = timers s"
    and "messages (callReturns k d s) = messages s @ [botMessage d]"
  using assms by (simp_all add: callReturns_def voice_response_def settle_def speak_def Let_def)

lemma voice_playback_done:
  assumes "utterance u = Some (t, Some VoiceOnDone)"
  shows "\<not> isProcessingVoiceRef (speechDone u)"
    and "spoken (speechDone u) = spoken u"
    and "\<not> isSpeaking (speechDone u)"
    and "recognizers (speechDone u) = recognizers u"
    and "pendingStarts (speechDone u) = pendingStarts u"
    and "timers (speechDone u) =
          (if voiceModeRef u
           then timers u @ [(nextTimer u, \<lparr>t_delay = 500, t_action = VoiceRestart\<rparr>)]
           else timers u)"
  using assms by (simp_all add: speechDone_def voiceOnDone_def setTimeout_def Let_def)

lemma voice_failure_caught:
  assumes "map_of (pendingCalls s) k = Some VoiceCall"
  shows "messages (callFails k err s) = messages s @ [errorBotMessage err]"
    and "\<not> isProcessingVoiceRef (callFails k err s)"
    and "\<not> isLoading (callFails k err s)"
    and "requests (callFails k err s) = requests s"
    and "timers (callFails k err s) =
          (if voiceModeRef s
           then timers s @ [(nextTimer s, \<lparr>t_delay = 2000, t_action = VoiceRestart\<rparr>)]
           else timers s)"
  using assms by (simp_all add: callFails_def voice_failure_def settle_def setTimeout_def Let_def)

text \<open>
  C5, as amended. When a voice call is answered with non-empty text while voice mode is
  on, the text is played exactly once: \<open>speak\<close> is called once with it, the guard stays
  set and no timer is set during the playback. When the playback is done the guard is
  released and, voice mode still being on, a timer of 500 ms is set; nothing that follows
  plays anything. The callback of that timer does not start the recognizer: if voice mode
  is on and the guard is free it calls \<open>restartListening\<close>, which sets a further timer of
  1500 ms. Its callback calls \<open>startListening\<close> if the hook's voice flag is still set;
  once the microphone permission is granted a new recognizer is started, and when it
  reports its start the page is listening again.
\<close>

theorem voice_answer_played_once_then_listening:
  "(map_of (pendingCalls s) k = Some VoiceCall \<and> d_textResponse d \<noteq> [] \<and> voiceModeRef s \<longrightarrow>
      spoken (callReturns k d s) = spoken s @ [d_textResponse d] \<and>
      utterance (callReturns k d s) = Some (d_textResponse d, Some VoiceOnDone) \<and>
      isProcessingVoiceRef (callReturns k d s) = isProcessingVoiceRef s \<and>
      timers (callReturns k d s) = timers s) \<and>
   (utterance u = Some (t, Some VoiceOnDone) \<longrightarrow>
      \<not> isProcessingVoiceRef (speechDone u) \<and>
      spoken (speechDone u) = spoken u \<and>
      recognizers (speechDone u) = recognizers u \<and>
      pendingStarts (speechDone u) = pendingStarts u \<and>
      timers (speechDone u) =
        (if voiceModeRef u
         then timers u @ [(nextTimer u, \<lparr>t_delay = 500, t_action = VoiceRestart\<rparr>)]
         else timers u)) \<and>
   fire VoiceRestart v =
     (if voiceModeRef v \<and> \<not> isProcessingVoiceRef v
      then restartListening HandleVoiceConversation v else v) \<and>
   last (timers (restartListening HandleVoiceConversation v)) =
     (nextTimer v, \<lparr>t_delay = 1500, t_action = RestartTimer HandleVoiceConversation\<rparr>) \<and>
   recognizers (restartListening HandleVoiceConversation v) = recognizers v \<and>
   pendingStarts (restartListening HandleVoiceConversation v) = pendingStarts v \<and>
   spoken (restartListening HandleVoiceConversation v) = spoken v \<and>
   fire (RestartTimer HandleVoiceConversation) w =
     (if isVoiceModeRef w then startListening (Some HandleVoiceConversation) w else w) \<and>
   spoken (startListening (Some HandleVoiceConversation) w) = spoken w \<and>
   (closure_isSupported w \<longrightarrow>
      pendingStarts (startListening (Some HandleVoiceConversation) w) =
        pendingStarts w @ [(nextStart w, Some HandleVoiceConversation)]) \<and>
   (map_of (pendingStarts x) j = Some (Some HandleVoiceConversation) \<and> hasSpeechRecognition x \<longrightarrow>
      recognitionRef (permissionAnswer j True True x) = Some (length (recognizers x)) \<and>
      rec_status (length (recognizers x)) (permissionAnswer j True True x) = Requested \<and>
      spoken (permissionAnswer j True True x) = spoken x) \<and>
   isListening (onstart r y) \<and> spoken (onstart r y) = spoken y"
proof -
  have on_answer:
    "map_of (pendingCalls s) k = Some VoiceCall \<and> d_textResponse d \<noteq> [] \<and> voiceModeRef s \<longrightarrow>
      spoken (callReturns k d s) = spoken s @ [d_textResponse d] \<and>
      utterance (callReturns k d s) = Some (d_textResponse d, Some VoiceOnDone) \<and>
      isProcessingVoiceRef (callReturns k d s) = isProcessingVoiceRef s \<and>
      timers (callReturns k d s) = timers s"
    using voice_answer_spoken [where s = s and k = k and d = d] by simp
  have on_done:
    "utterance u = Some (t, Some VoiceOnDone) \<longrightarrow>
      \<not> isProcessingVoiceRef (speechDone u) \<and>
      spoken (speechDone u) = spoken u \<and>
      recognizers (speechDone u) = recognizers u \<and>
      pendingStarts (speechDone u) = pendingStarts u \<and>
      timers (speechDone u) =
        (if voiceModeRef u
         then timers u @ [(nextTimer u, \<lparr>t_delay = 500, t_action = VoiceRestart\<rparr>)]
         else timers u)"
    using voice_playback_done [where u = u and t = t] by simp
  have queued:
    "closure_isSupported w \<longrightarrow>
      pendingStarts (startListening (Some HandleVoiceConversation) w) =
        pendingStarts w @ [(nextStart w, Some HandleVoiceConversation)]"
    by (simp add: startListening_queues)
  have granted:
    "map_of (pendingStarts x) j = Some (Some HandleVoiceConversation) \<and> hasSpeechRecognition x \<longrightarrow>
      recognitionRef (permissionAnswer j True True x) = Some (length (recognizers x)) \<and>
      rec_status (length (recognizers x)) (permissionAnswer j True True x) = Requested \<and>
      spoken (permissionAnswer j True True x) = spoken x"
    using permission_granted_starts [where x = x and j = j and cb = HandleVoiceConversation]
    by simp
  show ?thesis
    by (intro conjI on_answer on_done queued granted voiceRestart_calls_restartListening
        restartListening_schedules restartTimer_calls_startListening startListening_queues
        onstart_listens)
qed

theorem voice_answer_played_once_then_listening_witness:
  "spoken (callReturns 0 selam submitted) = [ascii ''selam''] \<and>
   \<not> isProcessingVoiceRef (speechDone speaking) \<and>
   timers (speechDone speaking) =
     timers speaking @ [(4, \<lparr>t_delay = 500, t_action = VoiceRestart\<rparr>)] \<and>
   pendingStarts (startListening (Some HandleVoiceConversation) settled) =
     [(1, Some HandleVoiceConversation)] \<and>
   recognitionRef (permissionAnswer 1 True True (step (TimerFire 5) settled)) = Some 1 \<and>
   spoken restarted = [ascii ''selam''] \<and> isListening restarted"
proof -
  have "observe (\<lambda>s. (map_of (pendingCalls s) 0, voiceModeRef s, spoken s)) submitted =
        (Some VoiceCall, True, [])"
    by code_simp
  then have call: "map_of (pendingCalls submitted) 0 = Some VoiceCall" "voiceModeRef submitted"
    "spoken submitted = []"
    by (simp_all add: observe_def)
  have answer: "d_textResponse selam \<noteq> []" "d_textResponse selam = ascii ''selam''"
    by (simp_all add: selam_def ascii_def)
  have "observe (\<lambda>s. (utterance s, voiceModeRef s, nextTimer s)) speaking =
        (Some (ascii ''selam'', Some VoiceOnDone), True, 4)"
    by code_simp
  then have playing: "utterance speaking = Some (ascii ''selam'', Some VoiceOnDone)"
    "voiceModeRef speaking" "nextTimer speaking = 4"
    by (simp_all add: observe_def)
  have "observe (\<lambda>s. (closure_isSupported s, pendingStarts s, nextStart s,
                     observe (\<lambda>u. (map_of (pendingStarts u) 1, hasSpeechRecognition u,
                                    length (recognizers u))) (step (TimerFire 5) s))) settled =
        (True, [], 1, Some (Some HandleVoiceConversation), True, 1)"
    by code_simp
  then have waiting: "closure_isSupported settled" "pendingStarts settled = []"
    "nextStart settled = 1"
    and asked:
    "map_of (pendingStarts (step (TimerFire 5) settled)) 1 = Some (Some HandleVoiceConversation)"
    "hasSpeechRecognition (step (TimerFire 5) settled)"
    "length (recognizers (step (TimerFire 5) settled)) = 1"
    by (simp_all add: observe_def)
  have "observe (\<lambda>s. (spoken s, isListening s)) restarted = ([ascii ''selam''], True)"
    by code_simp
  then have again: "spoken restarted = [ascii ''selam'']" "isListening restarted"
    by (simp_all add: observe_def)
  note chain = voice_answer_played_once_then_listening
    [where s = submitted and k = 0 and d = selam and u = speaking and t = "ascii ''selam''"
       and w = settled and x = "step (TimerFire 5) settled" and j = 1]
  have a: "spoken (callReturns 0 selam submitted) = [ascii ''selam'']"
    using chain call answer by simp
  have b: "\<not> isProcessingVoiceRef (speechDone speaking) \<and>
     timers (speechDone speaking) =
       timers speaking @ [(4, \<lparr>t_delay = 500, t_action = VoiceRestart\<rparr>)]"
    using chain playing by simp
  have c: "pendingStarts (startListening (Some HandleVoiceConversation) settled) =
     [(1, Some HandleVoiceConversation)]"
    using chain waiting by simp
  have d: "recognitionRef (permissionAnswer 1 True True (step (TimerFire 5) settled)) = Some 1"
    using chain asked by simp
  from a b c d again show ?thesis by blast
qed

text \<open>
  The claim as stated fails on the delay: when the 500 ms timer set at the end of the
  playback has fired, voice mode still on, no recognizer has been started or asked for
  and the page is not listening; what is pending is the 1500 ms timer of
  \<open>restartListening\<close>. Listening resumes only after that timer.
\<close>

theorem listening_not_restarted_after_500ms_counterexample:
  "isVoiceMode played \<and>
   map snd (timers played) =
     [\<lparr>t_delay = 1000, t_action = ProcessingReset\<rparr>, \<lparr>t_delay = 500, t_action = VoiceRestart\<rparr>] \<and>
   settled = step (TimerFire 4) played \<and>
   isVoiceMode settled \<and> \<not> isListening settled \<and> recognitionRef settled = None \<and>
   pendingStarts settled = [] \<and> map r_status (recognizers settled) = [Ended] \<and>
   map snd (timers settled) =
     [\<lparr>t_delay = 1000, t_action = ProcessingReset\<rparr>,
      \<lparr>t_delay = 1500, t_action = RestartTimer HandleVoiceConversation\<rparr>] \<and>
   restarted = run [TimerFire 5, PermissionAnswer 1 True True, RecStart 1] settled \<and>
   isListening restarted"
proof -
  have "observe (\<lambda>s. (isVoiceMode s, map snd (timers s))) played =
        (True, [\<lparr>t_delay = 1000, t_action = ProcessingReset\<rparr>,
                \<lparr>t_delay = 500, t_action = VoiceRestart\<rparr>])"
    by code_simp
  moreover have "observe (\<lambda>s. (isVoiceMode s, isListening s, recognitionRef s, pendingStarts s,
                     map r_status (recognizers s), map snd (timers s))) settled =
        (True, False, None, [], [Ended],
         [\<lparr>t_delay = 1000, t_action = ProcessingReset\<rparr>,
          \<lparr>t_delay = 1500, t_action = RestartTimer HandleVoiceConversation\<rparr>])"
    by code_simp
  moreover have "observe isListening restarted = True"
    by code_simp
  ultimately show ?thesis
    by (simp add: observe_def settled_def restarted_def)
qed

text \<open>
  C4, as amended. When a voice call fails the failure is caught: a message written by
  the bot is appended, whose text is the message of the error when it is a
  \<open>ChatApiError\<close> and the fixed fallback text otherwise; the guard is released, the
  loading flag is cleared and no request is sent. While voice mode is on a timer of
  2000 ms is set. Its callback does not start the recognizer: if voice mode is on and
  the guard is free it calls \<open>restartListening\<close>, which sets a further timer of 1500 ms.
  Its callback calls \<open>startListening\<close> if the hook's voice flag is still set; once the
  microphone permission is granted a new recognizer is started, and when it reports
  its start the page is listening again.
\<close>

theorem voice_failure_message_then_listening:
  "(map_of (pendingCalls s) k = Some VoiceCall \<longrightarrow>
      messages (callFails k err s) = messages s @ [errorBotMessage err] \<and>
      \<not> isProcessingVoiceRef (callFails k err s) \<and>
      \<not> isLoading (callFails k err s) \<and>
      requests (callFails k err s) = requests s \<and>
      timers (callFails k err s) =
        (if voiceModeRef s
         then timers s @ [(nextTimer s, \<lparr>t_delay = 2000, t_action = VoiceRestart\<rparr>)]
         else timers s)) \<and>
   m_type (errorBotMessage err) = Bot \<and>
   m_message (errorBotMessage err) =
     (case err of ChatApiError m \<Rightarrow> m | OtherError \<Rightarrow> fallbackMessage) \<and>
   fire VoiceRestart v =
     (if voiceModeRef v \<and> \<not> isProcessingVoiceRef v
      then restartListening HandleVoiceConversation v else v) \<and>
   last (timers (restartListening HandleVoiceConversation v)) =
     (nextTimer v, \<lparr>t_delay = 1500, t_action = RestartTimer HandleVoiceConversation\<rparr>) \<and>
   recognizers (restartListening HandleVoiceConversation v) = recognizers v \<and>
   pendingStarts (restartListening HandleVoiceConversation v) = pendingStarts v \<and>
   fire (RestartTimer HandleVoiceConversation) w =
     (if isVoiceModeRef w then startListening (Some HandleVoiceConversation) w else w) \<and>
   (closure_isSupported w \<longrightarrow>
      pendingStarts (startListening (Some HandleVoiceConversation) w) =
        pendingStarts w @ [(nextStart w, Some HandleVoiceConversation)]) \<and>
   (map_of (pendingStarts x) j = Some (Some HandleVoiceConversation) \<and> hasSpeechRecognition x \<longrightarrow>
      recognitionRef (permissionAnswer j True True x) = Some (length (recognizers x)) \<and>
      rec_status (length (recognizers x)) (permissionAnswer j True True x) = Requested) \<and>
   isListening (onstart r y)"
proof -
  have caught:
    "map_of (pendingCalls s) k = Some VoiceCall \<longrightarrow>
      messages (callFails k err s) = messages s @ [errorBotMessage err] \<and>
      \<not> isProcessingVoiceRef (callFails k err s) \<and>
      \<not> isLoading (callFails k err s) \<and>
      requests (callFails k err s) = requests s \<and>
      timers (callFails k err s) =
        (if voiceModeRef s
         then timers s @ [(nextTimer s, \<lparr>t_delay = 2000, t_action = VoiceRestart\<rparr>)]
         else timers s)"
    using voice_failure_caught [where s = s and k = k and err = err] by simp
  have author: "m_type (errorBotMessage err) = Bot"
    by (simp add: errorBotMessage_def)
  have wording: "m_message (errorBotMessage err) =
     (case err of ChatApiError m \<Rightarrow> m | OtherError \<Rightarrow> fallbackMessage)"
    by (simp add: errorBotMessage_def errorMessage_def)
  have queued:
    "closure_isSupported w \<longrightarrow>
      pendingStarts (startListening (Some HandleVoiceConversation) w) =
        pendingStarts w @ [(nextStart w, Some HandleVoiceConversation)]"
    by (simp add: startListening_queues)
  have granted:
    "map_of (pendingStarts x) j = Some (Some HandleVoiceConversation) \<and> hasSpeechRecognition x \<longrightarrow>
      recognitionRef (permissionAnswer j True True x) = Some (length (recognizers x)) \<and>
      rec_status (length (recognizers x)) (permissionAnswer j True True x) = Requested"
    using permission_granted_starts [where x = x and j = j and cb = HandleVoiceConversation]
    by simp
  show ?thesis
    by (intro conjI caught author wording queued granted voiceRestart_calls_restartListening
        restartListening_schedules restartTimer_calls_startListening onstart_listens)
qed

theorem voice_failure_message_then_listening_witness:
  "map m_message (messages (callFails 0 http500 submitted)) = [ascii ''merhaba'', ascii ''HTTP 500''] \<and>
   map m_message (messages (callFails 0 OtherError submitted)) = [ascii ''merhaba'', fallbackMessage] \<and>
   \<not> isProcessingVoiceRef (callFails 0 http500 submitted) \<and>
   timers (callFails 0 http500 submitted) =
     timers submitted @ [(4, \<lparr>t_delay = 2000, t_action = VoiceRestart\<rparr>)] \<and>
   pendingStarts (startListening (Some HandleVoiceConversation) failed_settled) =
     [(1, Some HandleVoiceConversation)] \<and>
   recognitionRef (permissionAnswer 1 True True (step (TimerFire 5) failed_settled)) = Some 1"
proof -
  have "observe (\<lambda>s. (map_of (pendingCalls s) 0, voiceModeRef s, map m_message (messages s),
                     nextTimer s)) submitted =
        (Some VoiceCall, True, [ascii ''merhaba''], 4)"
    by code_simp
  then have call: "map_of (pendingCalls submitted) 0 = Some VoiceCall" "voiceModeRef submitted"
    "map m_message (messages submitted) = [ascii ''merhaba'']" "nextTimer submitted = 4"
    by (simp_all add: observe_def)
  have "observe (\<lambda>s. (closure_isSupported s, pendingStarts s, nextStart s,
                     observe (\<lambda>u. (map_of (pendingStarts u) 1, hasSpeechRecognition u,
                                    length (recognizers u))) (step (TimerFire 5) s)))
          failed_settled =
        (True, [], 1, Some (Some HandleVoiceConversation), True, 1)"
    by code_simp
  then have waiting: "closure_isSupported failed_settled" "pendingStarts failed_settled = []"
    "nextStart failed_settled = 1"
    and asked:
    "map_of (pendingStarts (step (TimerFire 5) failed_settled)) 1 = Some (Some HandleVoiceConversation)"
    "hasSpeechRecognition (step (TimerFire 5) failed_settled)"
    "length (recognizers (step (TimerFire 5) failed_settled)) = 1"
    by (simp_all add: observe_def)
  note chain = voice_failure_message_then_listening
    [where s = submitted and k = 0 and w = failed_settled
       and x = "step (TimerFire 5) failed_settled" and j = 1]
  have a: "map m_message (messages (callFails 0 http500 submitted)) =
      [ascii ''merhaba'', ascii ''HTTP 500'']"
    using chain [where err = http500] call by (simp add: http500_def)
  have b: "map m_message (messages (callFails 0 OtherError submitted)) =
      [ascii ''merhaba'', fallbackMessage]"
    using chain [where err = OtherError] call by simp
  have c: "\<not> isProcessingVoiceRef (callFails 0 http500 submitted) \<and>
     timers (callFails 0 http500 submitted) =
       timers submitted @ [(4, \<lparr>t_delay = 2000, t_action = VoiceRestart\<rparr>)]"
    using chain [where err = http500] call by simp
  have d: "pendingStarts (startListening (Some HandleVoiceConversation) failed_settled) =
     [(1, Some HandleVoiceConversation)]"
    using chain [where err = http500] waiting by simp
  have e: "recognitionRef (permissionAnswer 1 True True (step (TimerFire 5) failed_settled)) = Some 1"
    using chain [where err = http500] asked by simp
  from a b c d e show ?thesis by blast
qed

text \<open>
  The claim as stated fails twice. The text appended for a \<open>ChatApiError\<close> is the
  message of the error, not the fallback text. And when the 2000 ms timer has fired,
  voice mode still on, no recognizer has been started or asked for and the page is not
  listening; what is pending is the 1500 ms timer of \<open>restartListening\<close>.
\<close>

theorem failure_text_and_delay_counterexample:
  "failed = step (CallFails 0 http500) submitted \<and>
   map m_message (messages failed) = [ascii ''merhaba'', ascii ''HTTP 500''] \<and>
   ascii ''HTTP 500'' \<noteq> fallbackMessage \<and>
   isVoiceMode failed \<and>
   map snd (timers failed) =
     [\<lparr>t_delay = 1000, t_action = ProcessingReset\<rparr>, \<lparr>t_delay = 2000, t_action = VoiceRestart\<rparr>] \<and>
   failed_settled = step (TimerFire 4) failed \<and>
   isVoiceMode failed_settled \<and> \<not> isListening failed_settled \<and>
   recognitionRef failed_settled = None \<and> pendingStarts failed_settled = [] \<and>
   map r_status (recognizers failed_settled) = [Ended] \<and>
   map snd (timers failed_settled) =
     [\<lparr>t_delay = 1000, t_action = ProcessingReset\<rparr>,
      \<lparr>t_delay = 1500, t_action = RestartTimer HandleVoiceConversation\<rparr>]"
proof -
  have "observe (\<lambda>s. (map m_message (messages s), isVoiceMode s, map snd (timers s))) failed =
        ([ascii ''merhaba'', ascii ''HTTP 500''], True,
         [\<lparr>t_delay = 1000, t_action = ProcessingReset\<rparr>,
          \<lparr>t_delay = 2000, t_action = VoiceRestart\<rparr>])"
    by code_simp
  moreover have "observe (\<lambda>s. (isVoiceMode s, isListening s, recognitionRef s, pendingStarts s,
                     map r_status (recognizers s), map snd (timers s))) failed_settled =
        (True, False, None, [], [Ended],
         [\<lparr>t_delay = 1000, t_action = ProcessingReset\<rparr>,
          \<lparr>t_delay = 1500, t_action = RestartTimer HandleVoiceConversation\<rparr>])"
    by code_simp
  moreover have "ascii ''HTTP 500'' \<noteq> fallbackMessage"
    by (simp add: ascii_def fallbackMessage_def)
  ultimately show ?thesis
    by (simp add: observe_def failed_def failed_settled_def)
qed

section \<open>The guards, and leaving voice mode\<close>

text \<open>
  While the guard of \<open>App\<close> is set, \<open>handleVoiceConversation\<close> drops every transcript; while
  the guard of the hook is set, \<open>processVoiceResult\<close> and the debounce timer do. A
  transcript of two code units or more that meets a free guard sets it and sends one
  request.
\<close>

lemma guard_drops_transcripts:
  "isProcessingVoiceRef s \<Longrightarrow> handleVoiceConversation t s = s"
  "isProcessingRef s \<Longrightarrow> processVoiceResult t s = s"
  "isProcessingRef s \<Longrightarrow> silence_fire t s = s"
  by (simp_all add: handleVoiceConversation_def processVoiceResult_def silence_fire_def Let_def)

lemma free_guard_accepts:
  assumes "\<not> isProcessingVoiceRef s" "2 \<le> length (trim t)"
  shows "isProcessingVoiceRef (handleVoiceConversation t s)"
    and "requests (handleVoiceConversation t s) = requests s @
           [\<lparr>q_message = t, q_mode = chat, q_sessionId = session, q_attachments = None,
             q_reset = None\<rparr>]"
    and "pendingCalls (handleVoiceConversation t s) =
           pendingCalls s @ [(length (requests s), VoiceCall)]"
proof -
  have "trim t \<noteq> []" "\<not> length (trim t) < 2"
    using assms(2) by auto
  then show "isProcessingVoiceRef (handleVoiceConversation t s)"
    and "requests (handleVoiceConversation t s) = requests s @
           [\<lparr>q_message = t, q_mode = chat, q_sessionId = session, q_attachments = None,
             q_reset = None\<rparr>]"
    and "pendingCalls (handleVoiceConversation t s) =
           pendingCalls s @ [(length (requests s), VoiceCall)]"
    using assms(1)
    by (simp_all add: handleVoiceConversation_def sendChatMessage_def stopSpeaking_def
        resetTranscript_def Let_def)
qed

text \<open>
  Leaving voice mode clears the turn state at once, aborts the recognizer and stops the
  playback, and sends nothing itself.
\<close>

lemma voice_exit_clears:
  assumes "isVoiceMode s"
  shows "\<not> isVoiceMode (handleVoiceToggle s)"
    and "\<not> voiceModeRef (handleVoiceToggle s)"
    and "\<not> isProcessingVoiceRef (handleVoiceToggle s)"
    and "currentUserSpeech (handleVoiceToggle s) = []"
    and "currentBotSpeech (handleVoiceToggle s) = []"
    and "\<not> isListening (handleVoiceToggle s)"
    and "\<not> isSpeaking (handleVoiceToggle s)"
    and "utterance (handleVoiceToggle s) = None"
    and "recognitionRef (handleVoiceToggle s) = None"
    and "\<not> isVoiceModeRef (handleVoiceToggle s)"
    and "onSpeechEndRef (handleVoiceToggle s) = None"
    and "requests (handleVoiceToggle s) = requests s"
    and "pendingCalls (handleVoiceToggle s) = pendingCalls s"
  using assms
  by (simp_all add: handleVoiceToggle_def stopSpeaking_def stopListening_def cleanup_def
      clearTimeout_def rec_abort_def rec_set_status_def Let_def split: option.splits)

lemma voice_exit_aborts:
  assumes "isVoiceMode s" "recognitionRef s = Some r" "rec_status r s \<noteq> Ended"
  shows "rec_status r (handleVoiceToggle s) = Aborting"
  using assms
  by (auto simp add: handleVoiceToggle_def stopSpeaking_def stopListening_def cleanup_def
      clearTimeout_def rec_abort_def rec_set_status_def rec_status_def Let_def
      split: option.splits if_splits)

text \<open>
  C2, on the code. Leaving voice mode does clear the turn state (\<open>voice_exit_clears\<close>),
  but a turn can survive it. In the first run the transcript "merhaba" has been accepted
  and its dispatch timer (100 ms) is pending when voice mode is left: the exit clears
  the state and sends nothing, the timer is still there, and when it fires the request
  is sent with voice mode off. In the second run voice mode is left while
  \<open>startListening\<close> waits for the microphone permission: once it is granted the
  recognizer starts and listens with voice mode off, and what it hears is sent.
\<close>

theorem pending_turn_survives_exit:
  "isVoiceMode accepted \<and> requests accepted = [] \<and>
   map snd (timers accepted) =
     [\<lparr>t_delay = 100, t_action = DispatchTimer HandleVoiceConversation (ascii ''merhaba'')\<rparr>] \<and>
   \<not> isVoiceMode exited \<and> \<not> voiceModeRef exited \<and> \<not> isListening exited \<and>
   \<not> isSpeaking exited \<and> requests exited = [] \<and> map fst (timers exited) = [2] \<and>
   map q_message (requests (step (TimerFire 2) exited)) = [ascii ''merhaba''] \<and>
   pendingCalls (step (TimerFire 2) exited) = [(0, VoiceCall)] \<and>
   \<not> isVoiceMode (step (TimerFire 2) exited) \<and>
   \<not> isVoiceMode late_start \<and> isListening late_start \<and> isVoiceModeRef late_start \<and>
   requests late_start = [] \<and>
   map q_message (requests late_turn) = [ascii ''merhaba''] \<and>
   pendingCalls late_turn = [(0, VoiceCall)] \<and> \<not> isVoiceMode late_turn"
proof -
  have "observe (\<lambda>s. (isVoiceMode s, requests s, map snd (timers s))) accepted =
        (True, [],
         [\<lparr>t_delay = 100, t_action = DispatchTimer HandleVoiceConversation (ascii ''merhaba'')\<rparr>])"
    by code_simp
  moreover have
    "observe (\<lambda>s. (isVoiceMode s, voiceModeRef s, isListening s, isSpeaking s, requests s,
                map fst (timers s),
                observe (\<lambda>u. (map q_message (requests u), pendingCalls u, isVoiceMode u))
                  (step (TimerFire 2) s))) exited =
     (False, False, False, False, [], [2], [ascii ''merhaba''], [(0, VoiceCall)], False)"
    by code_simp
  moreover have
    "observe (\<lambda>s. (isVoiceMode s, isListening s, isVoiceModeRef s, requests s)) late_start =
     (False, True, True, [])"
    by code_simp
  moreover have
    "observe (\<lambda>s. (map q_message (requests s), pendingCalls s, isVoiceMode s)) late_turn =
     ([ascii ''merhaba''], [(0, VoiceCall)], False)"
    by code_simp
  ultimately show ?thesis by (simp add: observe_def)
qed

text \<open>
  C1, on the code. Each guard does drop what arrives while it is set
  (\<open>guard_drops_transcripts\<close>), but two voice turns can be in flight in voice mode. In
  this run a turn that survived leaving voice mode sends call 1 while the text call 0 is
  outstanding; the answer of call 0 clears the loading flag, which enables the voice
  toggle; entering voice mode again releases the guard while call 1 is still
  outstanding; the next transcript is accepted and call 2 is sent.
\<close>

theorem two_voice_calls_in_flight:
  "\<not> isVoiceMode survived \<and> isLoading survived \<and> isProcessingVoiceRef survived \<and>
   pendingCalls survived = [(0, SendCall True), (1, VoiceCall)] \<and>
   isVoiceMode reentered \<and> \<not> isLoading reentered \<and> \<not> isProcessingVoiceRef reentered \<and>
   pendingCalls reentered = [(1, VoiceCall)] \<and>
   isVoiceMode overlap \<and> voiceModeRef overlap \<and>
   pendingCalls overlap = [(1, VoiceCall), (2, VoiceCall)] \<and>
   map q_message (requests overlap) = [hi, ascii ''merhaba'', ascii ''nasilsin'']"
proof -
  have "observe (\<lambda>s. (isVoiceMode s, isLoading s, isProcessingVoiceRef s, pendingCalls s))
          survived =
        (False, True, True, [(0, SendCall True), (1, VoiceCall)])"
    by code_simp
  moreover have
    "observe (\<lambda>s. (isVoiceMode s, isLoading s, isProcessingVoiceRef s, pendingCalls s))
       reentered =
     (True, False, False, [(1, VoiceCall)])"
    by code_simp
  moreover have
    "observe (\<lambda>s. (isVoiceMode s, voiceModeRef s, pendingCalls s, map q_message (requests s)))
       overlap =
     (True, True, [(1, VoiceCall), (2, VoiceCall)], [hi, ascii ''merhaba'', ascii ''nasilsin''])"
    by code_simp
  ultimately show ?thesis by (simp add: observe_def)
qed

section \<open>The closure of startListening never changes once the page is mounted\<close>

text \<open>
  No handler, timer callback or continuation writes \<open>isSupported\<close> or what the memoised
  \<open>startListening\<close> closed over: every function of the hook and of \<open>App\<close> leaves these
  three values as they are.
\<close>

named_theorems closure_frame

lemma setTimeout_closure [closure_frame]:
  "closure_isListening (setTimeout d a s) = closure_isListening s"
  "closure_isSupported (setTimeout d a s) = closure_isSupported s"
  "isSupported (setTimeout d a s) = isSupported s"
  by (simp_all add: setTimeout_def closure_frame Let_def
      split: option.splits prod.splits rec_error.splits timer_action.splits callback.splits
        call_kind.splits speech_cb.splits)

lemma clearTimeout_closure [closure_frame]:
  "closure_isListening (clearTimeout i s) = closure_isListening s"
  "closure_isSupported (clearTimeout i s) = closure_isSupported s"
  "isSupported (clearTimeout i s) = isSupported s"
  by (simp_all add: clearTimeout_def closure_frame Let_def
      split: option.splits prod.splits rec_error.splits timer_action.splits callback.splits
        call_kind.splits speech_cb.splits)

lemma sendChatMessage_closure [closure_frame]:
  "closure_isListening (sendChatMessage req k s) = closure_isListening s"
  "closure_isSupported (sendChatMessage req k s) = closure_isSupported s"
  "isSupported (sendChatMessage req k s) = isSupported s"
  by (simp_all add: sendChatMessage_def closure_frame Let_def
      split: option.splits prod.splits rec_error.splits timer_action.splits callback.splits
        call_kind.splits speech_cb.splits)

lemma speak_closure [closure_frame]:
  "closure_isListening (speak t onDone s) = closure_isListening s"
  "closure_isSupported (speak t onDone s) = closure_isSupported s"
  "isSupported (speak t onDone s) = isSupported s"
  by (simp_all add: speak_def closure_frame Let_def
      split: option.splits prod.splits rec_error.splits timer_action.splits callback.splits
        call_kind.splits speech_cb.splits)

lemma stopSpeaking_closure [closure_frame]:
  "closure_isListening (stopSpeaking s) = closure_isListening s"
  "closure_isSupported (stopSpeaking s) = closure_isSupported s"
  "isSupported (stopSpeaking s) = isSupported s"
  by (simp_all add: stopSpeaking_def closure_frame Let_def
      split: option.splits prod.splits rec_error.splits timer_action.splits callback.splits
        call_kind.splits speech_cb.splits)

lemma rec_set_status_closure [closure_frame]:
  "closure_isListening (rec_set_status r st s) = closure_isListening s"
  "closure_isSupported (rec_set_status r st s) = closure_isSupported s"
  "isSupported (rec_set_status r st s) = isSupported s"
  by (simp_all add: rec_set_status_def closure_frame Let_def
      split: option.splits prod.splits rec_error.splits timer_action.splits callback.splits
        call_kind.splits speech_cb.splits)

lemma rec_stop_closure [closure_frame]:
  "closure_isListening (rec_stop r s) = closure_isListening s"
  "closure_isSupported (rec_stop r s) = closure_isSupported s"
  "isSupported (rec_stop r s) = isSupported s"
  by (simp_all add: rec_stop_def closure_frame Let_def
      split: option.splits prod.splits rec_error.splits timer_action.splits callback.splits
        call_kind.splits speech_cb.splits)

lemma rec_abort_closure [closure_frame]:
  "closure_isListening (rec_abort r s) = closure_isListening s"
  "closure_isSupported (rec_abort r s) = closure_isSupported s"
  "isSupported (rec_abort r s) = isSupported s"
  by (simp_all add: rec_abort_def closure_frame Let_def
      split: option.splits prod.splits rec_error.splits timer_action.splits callback.splits
        call_kind.splits speech_cb.splits)

lemma cleanup_closure [closure_frame]:
  "closure_isListening (cleanup s) = closure_isListening s"
  "closure_isSupported (cleanup s) = closure_isSupported s"
  "isSupported (cleanup s) = isSupported s"
  by (simp_all add: cleanup_def closure_frame Let_def
      split: option.splits prod.splits rec_error.splits timer_action.splits callback.splits
        call_kind.splits speech_cb.splits)

lemma processVoiceResult_closure [closure_frame]:
  "closure_isListening (processVoiceResult t s) = closure_isListening s"
  "closure_isSupported (processVoiceResult t s) = closure_isSupported s"
  "isSupported (processVoiceResult t s) = isSupported s"
  by (simp_all add: processVoiceResult_def closure_frame Let_def
      split: option.splits prod.splits rec_error.splits timer_action.splits callback.splits
        call_kind.splits speech_cb.splits)

lemma startListening_closure [closure_frame]:
  "closure_isListening (startListening cb s) = closure_isListening s"
  "closure_isSupported (startListening cb s) = closure_isSupported s"
  "isSupported (startListening cb s) = isSupported s"
  by (simp_all add: startListening_def closure_frame Let_def
      split: option.splits prod.splits rec_error.splits timer_action.splits callback.splits
        call_kind.splits speech_cb.splits)

lemma startListening_resume_closure [closure_frame]:
  "closure_isListening (startListening_resume cb p ok s) = closure_isListening s"
  "closure_isSupported (startListening_resume cb p ok s) = closure_isSupported s"
  "isSupported (startListening_resume cb p ok s) = isSupported s"
  by (simp_all add: startListening_resume_def closure_frame Let_def
      split: option.splits prod.splits rec_error.splits timer_action.splits callback.splits
        call_kind.splits speech_cb.splits)

lemma set_autoStopTimeout_closure [closure_frame]:
  "closure_isListening (set_autoStopTimeout r v s) = closure_isListening s"
  "closure_isSupported (set_autoStopTimeout r v s) = closure_isSupported s"
  "isSupported (set_autoStopTimeout r v s) = isSupported s"
  by (simp_all add: set_autoStopTimeout_def closure_frame Let_def
      split: option.splits prod.splits rec_error.splits timer_action.splits callback.splits
        call_kind.splits speech_cb.splits)

lemma clear_autoStopTimeout_closure [closure_frame]:
  "closure_isListening (clear_autoStopTimeout r s) = closure_isListening s"
  "closure_isSupported (clear_autoStopTimeout r s) = closure_isSupported s"
  "isSupported (clear_autoStopTimeout r s) = isSupported s"
  by (simp_all add: clear_autoStopTimeout_def closure_frame Let_def
      split: option.splits prod.splits rec_error.splits timer_action.splits callback.splits
        call_kind.splits speech_cb.splits)

lemma onstart_closure [closure_frame]:
  "closure_isListening (onstart r s) = closure_isListening s"
  "closure_isSupported (onstart r s) = closure_isSupported s"
  "isSupported (onstart r s) = isSupported s"
  by (simp_all add: onstart_def closure_frame Let_def
      split: option.splits prod.splits rec_error.splits timer_action.splits callback.splits
        call_kind.splits speech_cb.splits)

lemma autoStop_fire_closure [closure_frame]:
  "closure_isListening (autoStop_fire r s) = closure_isListening s"
  "closure_isSupported (autoStop_fire r s) = closure_isSupported s"
  "isSupported (autoStop_fire r s) = isSupported s"
  by (simp_all add: autoStop_fire_def closure_frame Let_def
      split: option.splits prod.splits rec_error.splits timer_action.splits callback.splits
        call_kind.splits speech_cb.splits)

lemma schedule_silence_closure [closure_frame]:
  "closure_isListening (schedule_silence d t s) = closure_isListening s"
  "closure_isSupported (schedule_silence d t s) = closure_isSupported s"
  "isSupported (schedule_silence d t s) = isSupported s"
  by (simp_all add: schedule_silence_def closure_frame Let_def
      split: option.splits prod.splits rec_error.splits timer_action.splits callback.splits
        call_kind.splits speech_cb.splits)

lemma onresult_closure [closure_frame]:
  "closure_isListening (onresult r ev s) = closure_isListening s"
  "closure_isSupported (onresult r ev s) = closure_isSupported s"
  "isSupported (onresult r ev s) = isSupported s"
  by (simp_all add: onresult_def closure_frame Let_def
      split: option.splits prod.splits rec_error.splits timer_action.splits callback.splits
        call_kind.splits speech_cb.splits)

lemma silence_fire_closure [closure_frame]:
  "closure_isListening (silence_fire t s) = closure_isListening s"
  "closure_isSupported (silence_fire t s) = closure_isSupported s"
  "isSupported (silence_fire t s) = isSupported s"
  by (simp_all add: silence_fire_def closure_frame Let_def
      split: option.splits prod.splits rec_error.splits timer_action.splits callback.splits
        call_kind.splits speech_cb.splits)

lemma onend_closure [closure_frame]:
  "closure_isListening (onend r s) = closure_isListening s"
  "closure_isSupported (onend r s) = closure_isSupported s"
  "isSupported (onend r s) = isSupported s"
  by (simp_all add: onend_def closure_frame Let_def
      split: option.splits prod.splits rec_error.splits timer_action.splits callback.splits
        call_kind.splits speech_cb.splits)

lemma onerror_closure [closure_frame]:
  "closure_isListening (onerror r err s) = closure_isListening s"
  "closure_isSupported (onerror r err s) = closure_isSupported s"
  "isSupported (onerror r err s) = isSupported s"
  by (simp_all add: onerror_def closure_frame Let_def
      split: option.splits prod.splits rec_error.splits timer_action.splits callback.splits
        call_kind.splits speech_cb.splits)

lemma noSpeechRestart_fire_closure [closure_frame]:
  "closure_isListening (noSpeechRestart_fire s) = closure_isListening s"
  "closure_isSupported (noSpeechRestart_fire s) = closure_isSupported s"
  "isSupported (noSpeechRestart_fire s) = isSupported s"
  by (simp_all add: noSpeechRestart_fire_def closure_frame Let_def
      split: option.splits prod.splits rec_error.splits timer_action.splits callback.splits
        call_kind.splits speech_cb.splits)

lemma stopListening_closure [closure_frame]:
  "closure_isListening (stopListening s) = closure_isListening s"
  "closure_isSupported (stopListening s) = closure_isSupported s"
  "isSupported (stopListening s) = isSupported s"
  by (simp_all add: stopListening_def closure_frame Let_def
      split: option.splits prod.splits rec_error.splits timer_action.splits callback.splits
        call_kind.splits speech_cb.splits)

lemma resetTranscript_closure [closure_frame]:
  "closure_isListening (resetTranscript s) = closure_isListening s"
  "closure_isSupported (resetTranscript s) = closure_isSupported s"
  "isSupported (resetTranscript s) = isSupported s"
  by (simp_all add: resetTranscript_def closure_frame Let_def
      split: option.splits prod.splits rec_error.splits timer_action.splits callback.splits
        call_kind.splits speech_cb.splits)

lemma restartListening_closure [closure_frame]:
  "closure_isListening (restartListening cb s) = closure_isListening s"
  "closure_isSupported (restartListening cb s) = closure_isSupported s"
  "isSupported (restartListening cb s) = isSupported s"
  by (simp_all add: restartListening_def closure_frame Let_def
      split: option.splits prod.splits rec_error.splits timer_action.splits callback.splits
        call_kind.splits speech_cb.splits)

lemma restartTimer_fire_closure [closure_frame]:
  "closure_isListening (restartTimer_fire cb s) = closure_isListening s"
  "closure_isSupported (restartTimer_fire cb s) = closure_isSupported s"
  "isSupported (restartTimer_fire cb s) = isSupported s"
  by (simp_all add: restartTimer_fire_def closure_frame Let_def
      split: option.splits prod.splits rec_error.splits timer_action.splits callback.splits
        call_kind.splits speech_cb.splits)

lemma handleVoiceConversation_closure [closure_frame]:
  "closure_isListening (handleVoiceConversation t s) = closure_isListening s"
  "closure_isSupported (handleVoiceConversation t s) = closure_isSupported s"
  "isSupported (handleVoiceConversation t s) = isSupported s"
  by (simp_all add: handleVoiceConversation_def closure_frame Let_def
      split: option.splits prod.splits rec_error.splits timer_action.splits callback.splits
        call_kind.splits speech_cb.splits)

lemma voice_response_closure [closure_frame]:
  "closure_isListening (voice_response d s) = closure_isListening s"
  "closure_isSupported (voice_response d s) = closure_isSupported s"
  "isSupported (voice_response d s) = isSupported s"
  by (simp_all add: voice_response_def closure_frame Let_def
      split: option.splits prod.splits rec_error.splits timer_action.splits callback.splits
        call_kind.splits speech_cb.splits)

lemma voice_failure_closure [closure_frame]:
  "closure_isListening (voice_failure err s) = closure_isListening s"
  "closure_isSupported (voice_failure err s) = closure_isSupported s"
  "isSupported (voice_failure err s) = isSupported s"
  by (simp_all add: voice_failure_def closure_frame Let_def
      split: option.splits prod.splits rec_error.splits timer_action.splits callback.splits
        call_kind.splits speech_cb.splits)

lemma voiceOnDone_closure [closure_frame]:
  "closure_isListening (voiceOnDone s) = closure_isListening s"
  "closure_isSupported (voiceOnDone s) = closure_isSupported s"
  "isSupported (voiceOnDone s) = isSupported s"
  by (simp_all add: voiceOnDone_def closure_frame Let_def
      split: option.splits prod.splits rec_error.splits timer_action.splits callback.splits
        call_kind.splits speech_cb.splits)

lemma voiceRestart_fire_closure [closure_frame]:
  "closure_isListening (voiceRestart_fire s) = closure_isListening s"
  "closure_isSupported (voiceRestart_fire s) = closure_isSupported s"
  "isSupported (voiceRestart_fire s) = isSupported s"
  by (simp_all add: voiceRestart_fire_def closure_frame Let_def
      split: option.splits prod.splits rec_error.splits timer_action.splits callback.splits
        call_kind.splits speech_cb.splits)

lemma handleFileChange_closure [closure_frame]:
  "closure_isListening (handleFileChange f s) = closure_isListening s"
  "closure_isSupported (handleFileChange f s) = closure_isSupported s"
  "isSupported (handleFileChange f s) = isSupported s"
  by (simp_all add: handleFileChange_def closure_frame Let_def
      split: option.splits prod.splits rec_error.splits timer_action.splits callback.splits
        call_kind.splits speech_cb.splits)

lemma clearLocal_closure [closure_frame]:
  "closure_isListening (clearLocal s) = closure_isListening s"
  "closure_isSupported (clearLocal s) = closure_isSupported s"
  "isSupported (clearLocal s) = isSupported s"
  by (simp_all add: clearLocal_def closure_frame Let_def
      split: option.splits prod.splits rec_error.splits timer_action.splits callback.splits
        call_kind.splits speech_cb.splits)

lemma handleResetChat_closure [closure_frame]:
  "closure_isListening (handleResetChat s) = closure_isListening s"
  "closure_isSupported (handleResetChat s) = closure_isSupported s"
  "isSupported (handleResetChat s) = isSupported s"
  by (simp_all add: handleResetChat_def closure_frame Let_def
      split: option.splits prod.splits rec_error.splits timer_action.splits callback.splits
        call_kind.splits speech_cb.splits)

lemma reset_response_closure [closure_frame]:
  "closure_isListening (reset_response s) = closure_isListening s"
  "closure_isSupported (reset_response s) = closure_isSupported s"
  "isSupported (reset_response s) = isSupported s"
  by (simp_all add: reset_response_def closure_frame Let_def
      split: option.splits prod.splits rec_error.splits timer_action.splits callback.splits
        call_kind.splits speech_cb.splits)

lemma reset_failure_closure [closure_frame]:
  "closure_isListening (reset_failure err s) = closure_isListening s"
  "closure_isSupported (reset_failure err s) = closure_isSupported s"
  "isSupported (reset_failure err s) = isSupported s"
  by (simp_all add: reset_failure_def closure_frame Let_def
      split: option.splits prod.splits rec_error.splits timer_action.splits callback.splits
        call_kind.splits speech_cb.splits)

lemma handleSendMessage_closure [closure_frame]:
  "closure_isListening (handleSendMessage s) = closure_isListening s"
  "closure_isSupported (handleSendMessage s) = closure_isSupported s"
  "isSupported (handleSendMessage s) = isSupported s"
  by (simp_all add: handleSendMessage_def closure_frame Let_def
      split: option.splits prod.splits rec_error.splits timer_action.splits callback.splits
        call_kind.splits speech_cb.splits)

lemma send_response_closure [closure_frame]:
  "closure_isListening (send_response a d s) = closure_isListening s"
  "closure_isSupported (send_response a d s) = closure_isSupported s"
  "isSupported (send_response a d s) = isSupported s"
  by (simp_all add: send_response_def closure_frame Let_def
      split: option.splits prod.splits rec_error.splits timer_action.splits callback.splits
        call_kind.splits speech_cb.splits)

lemma send_failure_closure [closure_frame]:
  "closure_isListening (send_failure err s) = closure_isListening s"
  "closure_isSupported (send_failure err s) = closure_isSupported s"
  "isSupported (send_failure err s) = isSupported s"
  by (simp_all add: send_failure_def closure_frame Let_def
      split: option.splits prod.splits rec_error.splits timer_action.splits callback.splits
        call_kind.splits speech_cb.splits)

lemma handleVoiceToggle_closure [closure_frame]:
  "closure_isListening (handleVoiceToggle s) = closure_isListening s"
  "closure_isSupported (handleVoiceToggle s) = closure_isSupported s"
  "isSupported (handleVoiceToggle s) = isSupported s"
  by (simp_all add: handleVoiceToggle_def closure_frame Let_def
      split: option.splits prod.splits rec_error.splits timer_action.splits callback.splits
        call_kind.splits speech_cb.splits)

lemma handleSpeakMessage_closure [closure_frame]:
  "closure_isListening (handleSpeakMessage m s) = closure_isListening s"
  "closure_isSupported (handleSpeakMessage m s) = closure_isSupported s"
  "isSupported (handleSpeakMessage m s) = isSupported s"
  by (simp_all add: handleSpeakMessage_def closure_frame Let_def
      split: option.splits prod.splits rec_error.splits timer_action.splits callback.splits
        call_kind.splits speech_cb.splits)

lemma handleManualVoiceInput_closure [closure_frame]:
  "closure_isListening (handleManualVoiceInput s) = closure_isListening s"
  "closure_isSupported (handleManualVoiceInput s) = closure_isSupported s"
  "isSupported (handleManualVoiceInput s) = isSupported s"
  by (simp_all add: handleManualVoiceInput_def closure_frame Let_def
      split: option.splits prod.splits rec_error.splits timer_action.splits callback.splits
        call_kind.splits speech_cb.splits)

lemma fire_closure [closure_frame]:
  "closure_isListening (fire a s) = closure_isListening s"
  "closure_isSupported (fire a s) = closure_isSupported s"
  "isSupported (fire a s) = isSupported s"
  by (simp_all add: fire_def closure_frame Let_def
      split: option.splits prod.splits rec_error.splits timer_action.splits callback.splits
        call_kind.splits speech_cb.splits)

lemma timerFire_closure [closure_frame]:
  "closure_isListening (timerFire i s) = closure_isListening s"
  "closure_isSupported (timerFire i s) = closure_isSupported s"
  "isSupported (timerFire i s) = isSupported s"
  by (simp_all add: timerFire_def closure_frame Let_def
      split: option.splits prod.splits rec_error.splits timer_action.splits callback.splits
        call_kind.splits speech_cb.splits)

lemma permissionAnswer_closure [closure_frame]:
  "closure_isListening (permissionAnswer i p ok s) = closure_isListening s"
  "closure_isSupported (permissionAnswer i p ok s) = closure_isSupported s"
  "isSupported (permissionAnswer i p ok s) = isSupported s"
  by (simp_all add: permissionAnswer_def closure_frame Let_def
      split: option.splits prod.splits rec_error.splits timer_action.splits callback.splits
        call_kind.splits speech_cb.splits)

lemma settle_closure [closure_frame]:
  "closure_isListening (settle k s) = closure_isListening s"
  "closure_isSupported (settle k s) = closure_isSupported s"
  "isSupported (settle k s) = isSupported s"
  by (simp_all add: settle_def closure_frame Let_def
      split: option.splits prod.splits rec_error.splits timer_action.splits callback.splits
        call_kind.splits speech_cb.splits)

lemma callReturns_closure [closure_frame]:
  "closure_isListening (callReturns k d s) = closure_isListening s"
  "closure_isSupported (callReturns k d s) = closure_isSupported s"
  "isSupported (callReturns k d s) = isSupported s"
  by (simp_all add: callReturns_def closure_frame Let_def
      split: option.splits prod.splits rec_error.splits timer_action.splits callback.splits
        call_kind.splits speech_cb.splits)

lemma callFails_closure [closure_frame]:
  "closure_isListening (callFails k err s) = closure_isListening s"
  "closure_isSupported (callFails k err s) = closure_isSupported s"
  "isSupported (callFails k err s) = isSupported s"
  by (simp_all add: callFails_def closure_frame Let_def
      split: option.splits prod.splits rec_error.splits timer_action.splits callback.splits
        call_kind.splits speech_cb.splits)

lemma speechDone_closure [closure_frame]:
  "closure_isListening (speechDone s) = closure_isListening s"
  "closure_isSupported (speechDone s) = closure_isSupported s"
  "isSupported (speechDone s) = isSupported s"
  by (simp_all add: speechDone_def closure_frame Let_def
      split: option.splits prod.splits rec_error.splits timer_action.splits callback.splits
        call_kind.splits speech_cb.splits)

lemma handle_closure:
  "closure_isListening (handle e s) = closure_isListening s"
  "closure_isSupported (handle e s) = closure_isSupported s"
  "isSupported s \<Longrightarrow> isSupported (handle e s)"
  by (cases e; simp add: handle_def closure_frame)+

text \<open>
  So on a mounted page whose browser has the recognition API, the \<open>isListening\<close> that the
  auto-stop callback tests stays false whatever happens: the callback never stops a
  recognizer.
\<close>

lemma step_keeps_closure:
  assumes "\<not> closure_isListening s" "closure_isSupported s" "isSupported s"
  shows "\<not> closure_isListening (step e s) \<and> closure_isSupported (step e s) \<and>
         isSupported (step e s)"
proof (cases "enabled e s")
  case False
  then show ?thesis using assms by (simp add: step_def)
next
  case True
  let ?u = "handle e s"
  have u: "\<not> closure_isListening ?u" "closure_isSupported ?u" "isSupported ?u"
    using assms by (simp_all add: handle_closure)
  have c: "\<not> closure_isListening (commit v) \<and> closure_isSupported (commit v) \<and>
           isSupported (commit v)"
    if "\<not> closure_isListening v" "closure_isSupported v" "isSupported v" for v
    using that
    by (simp add: commit_def effect_manualMic_def effect_userSpeech_def effect_voiceRef_def
        useCallback_startListening_def closure_frame Let_def)
  from c [of ?u] u have "\<not> closure_isListening (commit ?u) \<and> closure_isSupported (commit ?u) \<and>
           isSupported (commit ?u)" by blast
  with c [of "commit ?u"] show ?thesis
    using True by (simp add: step_def render_def)
qed

lemma run_keeps_closure:
  "\<not> closure_isListening s \<Longrightarrow> closure_isSupported s \<Longrightarrow> isSupported s \<Longrightarrow>
     \<not> closure_isListening (run es s)"
proof (induction es arbitrary: s)
  case Nil
  then show ?case by simp
next
  case (Cons e es)
  from step_keeps_closure [OF Cons.prems, of e] Cons.IH [of "step e s"]
  show ?case by simp
qed

lemma mounted_closure:
  "\<not> closure_isListening (step Mount (init m True y))"
  "closure_isSupported (step Mount (init m True y))"
  "isSupported (step Mount (init m True y))"
  by (simp_all add: step_def enabled_def handle_def init_def render_def commit_def
      effect_manualMic_def effect_userSpeech_def effect_voiceRef_def
      useCallback_startListening_def Let_def)

lemma auto_stop_callback_idle:
  "autoStop_fire r (run es (step Mount (init m True y))) = run es (step Mount (init m True y))"
proof -
  have "\<not> closure_isListening (run es (step Mount (init m True y)))"
    by (rule run_keeps_closure [OF mounted_closure])
  then show ?thesis by (simp add: autoStop_fire_def)
qed

section \<open>The auto-stop timer on mobile\<close>

text \<open>
  C6, on the code. On mobile the recognizer is created with continuous capture off, and
  in voice mode \<open>onstart\<close> sets the timer of 10000 ms. But when that timer fires with no
  result received, the recognizer is not stopped: the callback tests the \<open>isListening\<close>
  that the memoised \<open>startListening\<close> closed over, which is false, so the recognizer
  keeps running and the page keeps listening. By \<open>auto_stop_callback_idle\<close> above this
  is so in every run of the mounted page: the callback never stops a recognizer.
\<close>

theorem mobile_auto_stop_never_stops:
  "isMobile mobile_listening \<and> isVoiceMode mobile_listening \<and> isListening mobile_listening \<and>
   recognitionRef mobile_listening = Some 0 \<and>
   map r_continuous (recognizers mobile_listening) = [False] \<and>
   map r_status (recognizers mobile_listening) = [Running] \<and>
   timers mobile_listening = [(1, \<lparr>t_delay = 10000, t_action = AutoStop 0\<rparr>)] \<and>
   \<not> closure_isListening mobile_listening \<and>
   map r_status (recognizers (step (TimerFire 1) mobile_listening)) = [Running] \<and>
   isListening (step (TimerFire 1) mobile_listening) \<and>
   recognitionRef (step (TimerFire 1) mobile_listening) = Some 0 \<and>
   timers (step (TimerFire 1) mobile_listening) = []"
proof -
  have
    "observe (\<lambda>s. (isMobile s, isVoiceMode s, isListening s, recognitionRef s,
                map r_continuous (recognizers s), map r_status (recognizers s), timers s,
                closure_isListening s,
                observe (\<lambda>u. (map r_status (recognizers u), isListening u, recognitionRef u,
                               timers u)) (step (TimerFire 1) s))) mobile_listening =
     (True, True, True, Some 0, [False], [Running],
      [(1, \<lparr>t_delay = 10000, t_action = AutoStop 0\<rparr>)], False,
      [Running], True, Some 0, [])"
    by code_simp
  then show ?thesis by (simp add: observe_def)
qed

end
